theory Spec2Isabelle
  imports Complex_Main "HOL-Library.AList"
begin

section \<open>Python values, exceptions and warnings\<close>

text \<open>
  The module \<^verbatim>\<open>pyvista/themes.py\<close> is dynamically typed: a setter receives any Python
  object. Values are therefore one datatype. A finite float is the real number it denotes
  (\<open>VFloat\<close>; a float literal of the source is its decimal value); the floats that are not
  numbers are \<open>VNaN\<close>, \<open>VPosInf\<close> and \<open>VNegInf\<close>. Integers are unbounded, a dictionary is an association list in insertion
  order, a canonical \<^verbatim>\<open>Color\<close> object is an opaque token, and \<open>VOpaque\<close> stands for any
  other object (a function, a \<^verbatim>\<open>Cycler\<close>), known only up to identity. A configuration
  object is its class together with the contents of its slots; nested configuration objects
  are held by value.
\<close>

datatype error =
    TypeError string
  | ValueError string
  | KeyError string
  | IndexError string
  | AttributeError string
  | ImportError string
  | OverflowError string
  | OSError string

datatype warning =
    UserWarning string
  | PyVistaDeprecationWarning string

datatype cls =
    LightingConfig | DepthPeelingConfig | SilhouetteConfig | ColorbarConfig | AxesConfig
  | Font | SliderStyleConfig | SliderConfig | TrameConfig
  | DefaultTheme | DarkTheme | ParaViewTheme | DocumentTheme | DocumentProTheme | TestingTheme

datatype pyval =
    VNone
  | VBool bool
  | VInt int
  | VFloat real
  | VNaN
  | VPosInf
  | VNegInf
  | VStr string
  | VList "pyval list"
  | VTuple "pyval list"
  | VDict "(pyval \<times> pyval) list"
  | VColor string
  | VInterp int
  | VOpaque nat
  | VObj cls "(string \<times> pyval) list"

type_synonym slots = "(string \<times> pyval) list"

text \<open>
  What a statement leaves behind: the exception it raised (if any), the object's slots at
  that moment, and the warnings it emitted. An expression evaluates to an exception or a
  value.
\<close>

type_synonym eff = "error option \<times> slots \<times> warning list"

definition raise :: "error \<Rightarrow> slots \<Rightarrow> eff" where
  "raise e self = (Some e, self, [])"

definition store :: "string \<Rightarrow> pyval \<Rightarrow> slots \<Rightarrow> eff" where
  "store k v self = (None, AList.update k v self, [])"

definition warn :: "warning \<Rightarrow> eff \<Rightarrow> eff" where
  "warn w r = (case r of (e, self, ws) \<Rightarrow> (e, self, w # ws))"

fun cls_name :: "cls \<Rightarrow> string" where
  "cls_name LightingConfig = ''_LightingConfig''"
| "cls_name DepthPeelingConfig = ''_DepthPeelingConfig''"
| "cls_name SilhouetteConfig = ''_SilhouetteConfig''"
| "cls_name ColorbarConfig = ''_ColorbarConfig''"
| "cls_name AxesConfig = ''_AxesConfig''"
| "cls_name Font = ''_Font''"
| "cls_name SliderStyleConfig = ''_SliderStyleConfig''"
| "cls_name SliderConfig = ''_SliderConfig''"
| "cls_name TrameConfig = ''_TrameConfig''"
| "cls_name DefaultTheme = ''DefaultTheme''"
| "cls_name DarkTheme = ''DarkTheme''"
| "cls_name ParaViewTheme = ''ParaViewTheme''"
| "cls_name DocumentTheme = ''DocumentTheme''"
| "cls_name DocumentProTheme = ''DocumentProTheme''"
| "cls_name TestingTheme = ''_TestingTheme''"

text \<open>\<^verbatim>\<open>type(x).__name__\<close>\<close>

fun type_name :: "pyval \<Rightarrow> string" where
  "type_name VNone = ''NoneType''"
| "type_name (VBool _) = ''bool''"
| "type_name (VInt _) = ''int''"
| "type_name (VFloat _) = ''float''"
| "type_name VNaN = ''float''"
| "type_name VPosInf = ''float''"
| "type_name VNegInf = ''float''"
| "type_name (VStr _) = ''str''"
| "type_name (VList _) = ''list''"
| "type_name (VTuple _) = ''tuple''"
| "type_name (VDict _) = ''dict''"
| "type_name (VColor _) = ''Color''"
| "type_name (VInterp _) = ''InterpolationType''"
| "type_name (VOpaque _) = ''object''"
| "type_name (VObj c _) = cls_name c"

section \<open>Collaborators outside the module\<close>

text \<open>
  \<^verbatim>\<open>themes.py\<close> imports \<^verbatim>\<open>Color\<close>, \<^verbatim>\<open>get_cmap_safe\<close>, \<^verbatim>\<open>get_cycler\<close>,
  \<^verbatim>\<open>parse_font_family\<close>, \<^verbatim>\<open>InterpolationType\<close> and \<^verbatim>\<open>_validate_jupyter_backend\<close>
  from other modules, and reads the process environment and theme files. None of these is
  part of the module, so every function of the model takes them as a parameter \<open>c\<close>:
  what each call returns or raises. The same record carries what the model does not spell
  out: the parsing of strings by \<^verbatim>\<open>int()\<close> and \<^verbatim>\<open>float()\<close>, the value of
  \<^verbatim>\<open>float(n)\<close> for an integer \<open>n\<close> beyond 2 to the power 53 in absolute value (a rounded
  float or an overflow error), \<^verbatim>\<open>str.lower()\<close> on text that is not ASCII, and the
  formatting of a value inside an f-string.
\<close>

record collab =
  Color :: "pyval \<Rightarrow> error + string"
  Color_eq :: "string \<Rightarrow> pyval \<Rightarrow> bool"
  Color_to_dict :: "(string \<Rightarrow> pyval) option"
  Color_from_dict :: "(pyval \<Rightarrow> error + string) option"
  get_cmap_safe :: "pyval \<Rightarrow> error option"
  get_cycler :: "pyval \<Rightarrow> error + pyval"
  parse_font_family :: "pyval \<Rightarrow> error option"
  validate_jupyter_backend :: "pyval \<Rightarrow> error + pyval"
  from_any :: "pyval \<Rightarrow> error + int"
  FLAT :: int
  environ :: "string \<Rightarrow> string option"
  os_name :: string
  int_of_str :: "string \<Rightarrow> error + int"
  float_of_str :: "string \<Rightarrow> error + pyval"
  float_of_int :: "int \<Rightarrow> error + pyval"
  str_lower :: "string \<Rightarrow> string"
  format_value :: "pyval \<Rightarrow> string"
  read_json :: "string \<Rightarrow> error + pyval"

section \<open>Built-in operations\<close>

text \<open>The real number a value denotes in an arithmetic comparison, if it is a bool, an int
  or a finite float; \<^verbatim>\<open>bool\<close> is an \<^verbatim>\<open>int\<close>.\<close>

fun py_num :: "pyval \<Rightarrow> real option" where
  "py_num (VBool b) = Some (if b then 1 else 0)"
| "py_num (VInt i) = Some (real_of_int i)"
| "py_num (VFloat r) = Some r"
| "py_num _ = None"

text \<open>
  \<^verbatim>\<open>value < k\<close> and \<^verbatim>\<open>value > k\<close> against an integer literal. Every comparison with NaN
  is false; the infinities lie below and above every integer.
\<close>

definition py_lt :: "pyval \<Rightarrow> int \<Rightarrow> error + bool" where
  "py_lt v k =
    (case v of
       VNaN \<Rightarrow> Inr False
     | VPosInf \<Rightarrow> Inr False
     | VNegInf \<Rightarrow> Inr True
     | _ \<Rightarrow>
        (case py_num v of
           None \<Rightarrow> Inl (TypeError (''< not supported between instances of '' @ type_name v @ '' and int''))
         | Some x \<Rightarrow> Inr (x < real_of_int k)))"

definition py_gt :: "pyval \<Rightarrow> int \<Rightarrow> error + bool" where
  "py_gt v k =
    (case v of
       VNaN \<Rightarrow> Inr False
     | VPosInf \<Rightarrow> Inr True
     | VNegInf \<Rightarrow> Inr False
     | _ \<Rightarrow>
        (case py_num v of
           None \<Rightarrow> Inl (TypeError (''> not supported between instances of '' @ type_name v @ '' and int''))
         | Some x \<Rightarrow> Inr (x > real_of_int k)))"

text \<open>
  \<^verbatim>\<open>float(x)\<close>: a float is returned as it is, NaN and the infinities included; an integer
  up to 2 to the power 53 in absolute value is converted exactly. \<^verbatim>\<open>int(x)\<close> truncates
  towards zero and refuses NaN and the infinities. \<^verbatim>\<open>bool(x)\<close> is the truth value.
\<close>

fun py_float :: "collab \<Rightarrow> pyval \<Rightarrow> error + pyval" where
  "py_float c (VBool b) = Inr (VFloat (if b then 1 else 0))"
| "py_float c (VInt i) =
    (if \<bar>i\<bar> \<le> 9007199254740992 then Inr (VFloat (real_of_int i)) else float_of_int c i)"
| "py_float c (VFloat r) = Inr (VFloat r)"
| "py_float c VNaN = Inr VNaN"
| "py_float c VPosInf = Inr VPosInf"
| "py_float c VNegInf = Inr VNegInf"
| "py_float c (VStr s) = float_of_str c s"
| "py_float c v = Inl (TypeError (''float() argument must be a string or a real number, not '' @ type_name v))"

fun py_int :: "collab \<Rightarrow> pyval \<Rightarrow> error + int" where
  "py_int c (VBool b) = Inr (if b then 1 else 0)"
| "py_int c (VInt i) = Inr i"
| "py_int c (VFloat r) = Inr (if r < 0 then - \<lfloor>- r\<rfloor> else \<lfloor>r\<rfloor>)"
| "py_int c VNaN = Inl (ValueError ''cannot convert float NaN to integer'')"
| "py_int c VPosInf = Inl (OverflowError ''cannot convert float infinity to integer'')"
| "py_int c VNegInf = Inl (OverflowError ''cannot convert float infinity to integer'')"
| "py_int c (VStr s) = int_of_str c s"
| "py_int c v = Inl (TypeError (''int() argument must be a string, a bytes-like object or a real number, not '' @ type_name v))"

fun py_bool :: "pyval \<Rightarrow> bool" where
  "py_bool VNone = False"
| "py_bool (VBool b) = b"
| "py_bool (VInt i) = (i \<noteq> 0)"
| "py_bool (VFloat r) = (r \<noteq> 0)"
| "py_bool (VStr s) = (s \<noteq> [])"
| "py_bool (VList xs) = (xs \<noteq> [])"
| "py_bool (VTuple xs) = (xs \<noteq> [])"
| "py_bool (VDict d) = (d \<noteq> [])"
| "py_bool _ = True"

text \<open>\<^verbatim>\<open>len(x)\<close> and \<^verbatim>\<open>x[i]\<close> for a literal index \<open>i \<ge> 0\<close>.\<close>

fun py_len :: "pyval \<Rightarrow> error + nat" where
  "py_len (VStr s) = Inr (length s)"
| "py_len (VList xs) = Inr (length xs)"
| "py_len (VTuple xs) = Inr (length xs)"
| "py_len (VDict d) = Inr (length d)"
| "py_len v = Inl (TypeError (''object of type '' @ type_name v @ '' has no len()''))"

definition nth_or_raise :: "pyval list \<Rightarrow> nat \<Rightarrow> error + pyval" where
  "nth_or_raise xs i = (if i < length xs then Inr (xs ! i) else Inl (IndexError ''index out of range''))"

fun py_getitem :: "pyval \<Rightarrow> nat \<Rightarrow> error + pyval" where
  "py_getitem (VList xs) i = nth_or_raise xs i"
| "py_getitem (VTuple xs) i = nth_or_raise xs i"
| "py_getitem (VStr s) i = nth_or_raise (map (\<lambda>ch. VStr [ch]) s) i"
| "py_getitem (VDict d) i = (case map_of d (VInt (int i)) of
      None \<Rightarrow> Inl (KeyError ''missing key'') | Some v \<Rightarrow> Inr v)"
| "py_getitem v i = Inl (TypeError (type_name v @ '' object is not subscriptable''))"

text \<open>
  \<^verbatim>\<open>str.lower()\<close>. On ASCII text it maps the capital letters to the small ones and
  keeps every other character; on any other text it is the collaborator's answer.
\<close>

definition lower_char :: "char \<Rightarrow> char" where
  "lower_char ch =
    (case map_of (zip ''ABCDEFGHIJKLMNOPQRSTUVWXYZ'' ''abcdefghijklmnopqrstuvwxyz'') ch of
       Some l \<Rightarrow> l
     | None \<Rightarrow> ch)"

definition is_ascii :: "string \<Rightarrow> bool" where
  "is_ascii s = list_all (\<lambda>ch. \<not> digit7 ch) s"

definition lower :: "collab \<Rightarrow> string \<Rightarrow> string" where
  "lower c s = (if is_ascii s then map lower_char s else str_lower c s)"

section \<open>Validated setters\<close>

text \<open>
  \<^verbatim>\<open>_check_between_zero_and_one\<close>: \<^verbatim>\<open>if value < 0 or value > 1: raise ValueError(...)\<close>.
\<close>

definition check_between_zero_and_one :: "pyval \<Rightarrow> string \<Rightarrow> error + unit" where
  "check_between_zero_and_one v value_name =
    (case py_lt v 0 of
       Inl e \<Rightarrow> Inl e
     | Inr True \<Rightarrow> Inl (ValueError (value_name @ '' must be between 0 and 1.''))
     | Inr False \<Rightarrow>
        (case py_gt v 1 of
           Inl e \<Rightarrow> Inl e
         | Inr True \<Rightarrow> Inl (ValueError (value_name @ '' must be between 0 and 1.''))
         | Inr False \<Rightarrow> Inr ()))"


subsection \<open>Slots, getters and the recurring setter bodies\<close>

type_synonym getter = "collab \<Rightarrow> slots \<Rightarrow> (error + pyval) \<times> warning list"
type_synonym setter = "collab \<Rightarrow> pyval \<Rightarrow> slots \<Rightarrow> eff"

definition slot_get :: "string \<Rightarrow> slots \<Rightarrow> error + pyval" where
  "slot_get k self = (case map_of self k of None \<Rightarrow> Inl (AttributeError k) | Some v \<Rightarrow> Inr v)"

text \<open>\<^verbatim>\<open>return self._x\<close>\<close>

definition rd :: "string \<Rightarrow> getter" where
  "rd k c self = (slot_get k self, [])"

text \<open>\<^verbatim>\<open>self._x = value\<close>\<close>

definition set_raw :: "string \<Rightarrow> setter" where
  "set_raw k c v self = store k v self"

text \<open>\<^verbatim>\<open>self._x = float(value)\<close>\<close>

definition set_float :: "string \<Rightarrow> setter" where
  "set_float k c v self = (case py_float c v of Inl e \<Rightarrow> raise e self | Inr r \<Rightarrow> store k r self)"

text \<open>\<^verbatim>\<open>self._x = int(value)\<close>\<close>

definition set_int :: "string \<Rightarrow> setter" where
  "set_int k c v self = (case py_int c v of Inl e \<Rightarrow> raise e self | Inr i \<Rightarrow> store k (VInt i) self)"

text \<open>\<^verbatim>\<open>self._x = bool(value)\<close>\<close>

definition set_bool :: "string \<Rightarrow> setter" where
  "set_bool k c v self = store k (VBool (py_bool v)) self"

text \<open>\<^verbatim>\<open>self._x = Color(value)\<close>\<close>

definition set_color :: "string \<Rightarrow> setter" where
  "set_color k c v self = (case Color c v of Inl e \<Rightarrow> raise e self | Inr col \<Rightarrow> store k (VColor col) self)"

text \<open>
  \<^verbatim>\<open>if x is None: self._x = None else: self._x = int(x)\<close> (font title and label size)
\<close>

definition set_int_or_none :: "string \<Rightarrow> setter" where
  "set_int_or_none k c v self = (if v = VNone then store k VNone self else set_int k c v self)"

text \<open>
  \<^verbatim>\<open>if not isinstance(config, K): raise TypeError(msg)\<close>, then \<^verbatim>\<open>self._x = config\<close>.
  No configuration class has a subclass in the module.
\<close>

definition set_config :: "cls \<Rightarrow> string \<Rightarrow> string \<Rightarrow> setter" where
  "set_config K msg k c v self =
    (case v of
       VObj K' _ \<Rightarrow> if K' = K then store k v self else raise (TypeError msg) self
     | _ \<Rightarrow> raise (TypeError msg) self)"

text \<open>\<^verbatim>\<open>x in [s1, s2, ...]\<close> for a list of string literals: a string is in the list when it is
  one of them; a \<^verbatim>\<open>Color\<close> decides by its own \<^verbatim>\<open>__eq__\<close>; nothing else equals a string.\<close>

definition in_strings :: "collab \<Rightarrow> pyval \<Rightarrow> string list \<Rightarrow> bool" where
  "in_strings c v ss =
    (case v of
       VStr s \<Rightarrow> List.member ss s
     | VColor col \<Rightarrow> list_ex (\<lambda>s. Color_eq c col (VStr s)) ss
     | _ \<Rightarrow> False)"

text \<open>\<^verbatim>\<open>f'{x}'\<close>\<close>

definition py_str :: "collab \<Rightarrow> pyval \<Rightarrow> string" where
  "py_str c v = (case v of VStr s \<Rightarrow> s | _ \<Rightarrow> format_value c v)"

definition dq :: string where
  "dq = [CHR 0x22]"

definition bq :: string where
  "bq = [CHR 0x60]"

subsection \<open>\<^verbatim>\<open>_LightingConfig\<close>\<close>

definition interpolation_get :: getter where
  "interpolation_get c self =
    (case slot_get ''_interpolation'' self of
       Inl e \<Rightarrow> (Inl e, [])
     | Inr v \<Rightarrow> (case from_any c v of Inl e \<Rightarrow> (Inl e, []) | Inr i \<Rightarrow> (Inr (VInterp i), [])))"

definition interpolation_set :: setter where
  "interpolation_set c v self =
    (case from_any c v of Inl e \<Rightarrow> raise e self | Inr i \<Rightarrow> store ''_interpolation'' (VInt i) self)"

definition LightingConfig_props :: "(string \<times> getter \<times> setter) list" where
  "LightingConfig_props =
    [(''interpolation'', interpolation_get, interpolation_set),
     (''metallic'', rd ''_metallic'', set_raw ''_metallic''),
     (''roughness'', rd ''_roughness'', set_raw ''_roughness''),
     (''ambient'', rd ''_ambient'', set_raw ''_ambient''),
     (''diffuse'', rd ''_diffuse'', set_raw ''_diffuse''),
     (''specular'', rd ''_specular'', set_raw ''_specular''),
     (''specular_power'', rd ''_specular_power'', set_raw ''_specular_power''),
     (''emissive'', rd ''_emissive'', set_bool ''_emissive'')]"

subsection \<open>\<^verbatim>\<open>_DepthPeelingConfig\<close>\<close>

definition DepthPeelingConfig_props :: "(string \<times> getter \<times> setter) list" where
  "DepthPeelingConfig_props =
    [(''number_of_peels'', rd ''_number_of_peels'', set_int ''_number_of_peels''),
     (''occlusion_ratio'', rd ''_occlusion_ratio'', set_float ''_occlusion_ratio''),
     (''enabled'', rd ''_enabled'', set_bool ''_enabled'')]"

subsection \<open>\<^verbatim>\<open>_SilhouetteConfig\<close>\<close>

text \<open>
  \<^verbatim>\<open>_check_between_zero_and_one(opacity, 'opacity'); self._opacity = float(opacity)\<close>
\<close>

definition opacity_set :: setter where
  "opacity_set c v self =
    (case check_between_zero_and_one v ''opacity'' of
       Inl e \<Rightarrow> raise e self
     | Inr _ \<Rightarrow> (case py_float c v of Inl e \<Rightarrow> raise e self | Inr r \<Rightarrow> store ''_opacity'' r self))"

definition decimate_set :: setter where
  "decimate_set c v self =
    (if v = VNone then store ''_decimate'' VNone self
     else (case check_between_zero_and_one v ''decimate'' of
       Inl e \<Rightarrow> raise e self
     | Inr _ \<Rightarrow> (case py_float c v of Inl e \<Rightarrow> raise e self | Inr r \<Rightarrow> store ''_decimate'' r self)))"

definition SilhouetteConfig_props :: "(string \<times> getter \<times> setter) list" where
  "SilhouetteConfig_props =
    [(''enabled'', rd ''_enabled'', set_bool ''_enabled''),
     (''color'', rd ''_color'', set_color ''_color''),
     (''line_width'', rd ''_line_width'', set_float ''_line_width''),
     (''opacity'', rd ''_opacity'', opacity_set),
     (''feature_angle'', rd ''_feature_angle'', set_raw ''_feature_angle''),
     (''decimate'', rd ''_decimate'', decimate_set)]"

subsection \<open>\<^verbatim>\<open>_ColorbarConfig\<close>\<close>

definition ColorbarConfig_props :: "(string \<times> getter \<times> setter) list" where
  "ColorbarConfig_props =
    [(''width'', rd ''_width'', set_float ''_width''),
     (''height'', rd ''_height'', set_float ''_height''),
     (''position_x'', rd ''_position_x'', set_float ''_position_x''),
     (''position_y'', rd ''_position_y'', set_float ''_position_y'')]"

subsection \<open>\<^verbatim>\<open>_AxesConfig\<close>\<close>

definition AxesConfig_props :: "(string \<times> getter \<times> setter) list" where
  "AxesConfig_props =
    [(''x_color'', rd ''_x_color'', set_color ''_x_color''),
     (''y_color'', rd ''_y_color'', set_color ''_y_color''),
     (''z_color'', rd ''_z_color'', set_color ''_z_color''),
     (''box'', rd ''_box'', set_bool ''_box''),
     (''show'', rd ''_show'', set_bool ''_show'')]"

subsection \<open>\<^verbatim>\<open>_Font\<close>\<close>

text \<open>\<^verbatim>\<open>parse_font_family(family); self._family = family\<close>\<close>

definition family_set :: setter where
  "family_set c v self =
    (case parse_font_family c v of Some e \<Rightarrow> raise e self | None \<Rightarrow> store ''_family'' v self)"

definition Font_props :: "(string \<times> getter \<times> setter) list" where
  "Font_props =
    [(''family'', rd ''_family'', family_set),
     (''size'', rd ''_size'', set_int ''_size''),
     (''title_size'', rd ''_title_size'', set_int_or_none ''_title_size''),
     (''label_size'', rd ''_label_size'', set_int_or_none ''_label_size''),
     (''color'', rd ''_color'', set_color ''_color''),
     (''fmt'', rd ''_fmt'', set_raw ''_fmt'')]"

subsection \<open>\<^verbatim>\<open>_SliderStyleConfig\<close> and \<^verbatim>\<open>_SliderConfig\<close>\<close>

definition SliderStyleConfig_props :: "(string \<times> getter \<times> setter) list" where
  "SliderStyleConfig_props =
    [(''name'', rd ''_name'', set_raw ''_name''),
     (''cap_width'', rd ''_cap_width'', set_float ''_cap_width''),
     (''cap_length'', rd ''_cap_length'', set_float ''_cap_length''),
     (''cap_opacity'', rd ''_cap_opacity'', set_float ''_cap_opacity''),
     (''tube_color'', rd ''_tube_color'', set_color ''_tube_color''),
     (''tube_width'', rd ''_tube_width'', set_float ''_tube_width''),
     (''slider_color'', rd ''_slider_color'', set_color ''_slider_color''),
     (''slider_width'', rd ''_slider_width'', set_float ''_slider_width''),
     (''slider_length'', rd ''_slider_length'', set_float ''_slider_length'')]"

definition SliderConfig_props :: "(string \<times> getter \<times> setter) list" where
  "SliderConfig_props =
    [(''classic'', rd ''_classic'',
        set_config SliderStyleConfig (''Configuration type must be '' @ bq @ ''_SliderStyleConfig'' @ bq) ''_classic''),
     (''modern'', rd ''_modern'',
        set_config SliderStyleConfig (''Configuration type must be '' @ bq @ ''_SliderStyleConfig'' @ bq) ''_modern'')]"

subsection \<open>\<^verbatim>\<open>_TrameConfig\<close>\<close>

definition TrameConfig_props :: "(string \<times> getter \<times> setter) list" where
  "TrameConfig_props =
    [(''interactive_ratio'', rd ''_interactive_ratio'', set_raw ''_interactive_ratio''),
     (''still_ratio'', rd ''_still_ratio'', set_raw ''_still_ratio''),
     (''jupyter_server_name'', rd ''_jupyter_server_name'', set_raw ''_jupyter_server_name''),
     (''jupyter_server_port'', rd ''_jupyter_server_port'', set_raw ''_jupyter_server_port''),
     (''server_proxy_enabled'', rd ''_server_proxy_enabled'', set_bool ''_server_proxy_enabled''),
     (''server_proxy_prefix'', rd ''_server_proxy_prefix'', set_raw ''_server_proxy_prefix''),
     (''default_mode'', rd ''_default_mode'', set_raw ''_default_mode''),
     (''enable_vtk_warnings'', rd ''_enable_vtk_warnings'', set_bool ''_enable_vtk_warnings'')]"


subsection \<open>\<^verbatim>\<open>DefaultTheme\<close>\<close>

text \<open>
  \<^verbatim>\<open>if not isinstance(camera, dict): raise TypeError(...)\<close>,
  \<^verbatim>\<open>if 'position' not in camera: raise KeyError(...)\<close>,
  \<^verbatim>\<open>if 'viewup' not in camera: raise KeyError(...)\<close>, then \<^verbatim>\<open>self._camera = camera\<close>.
\<close>

definition camera_set :: setter where
  "camera_set c v self =
    (case v of
       VDict d \<Rightarrow>
         if map_of d (VStr ''position'') = None
         then raise (KeyError (''Expected the '' @ dq @ ''position'' @ dq @ '' key in the camera dict.'')) self
         else if map_of d (VStr ''viewup'') = None
         then raise (KeyError (''Expected the '' @ dq @ ''viewup'' @ dq @ '' key in the camera dict.'')) self
         else store ''_camera'' v self
     | _ \<Rightarrow> raise (TypeError (''Expected '' @ bq @ bq @ ''camera'' @ bq @ bq @ '' to be a dict, not ''
                  @ type_name v @ ''.'')) self)"

text \<open>
  \<^verbatim>\<open>if len(window_size) != 2: raise ValueError(...)\<close>;
  \<^verbatim>\<open># ensure positive size\<close>
  \<^verbatim>\<open>if window_size[0] < 0 or window_size[1] < 0: raise ValueError(...)\<close>;
  \<^verbatim>\<open>self._window_size = window_size\<close>.
\<close>

definition window_size_set :: setter where
  "window_size_set c v self =
    (case py_len v of
       Inl e \<Rightarrow> raise e self
     | Inr n \<Rightarrow>
        if n \<noteq> 2
        then raise (ValueError (''Expected a length 2 iterable for '' @ bq @ bq @ ''window_size'' @ bq @ bq @ ''.'')) self
        else (case py_getitem v 0 of
           Inl e \<Rightarrow> raise e self
         | Inr a \<Rightarrow> (case py_lt a 0 of
             Inl e \<Rightarrow> raise e self
           | Inr True \<Rightarrow> raise (ValueError ''Window size must be a positive value.'') self
           | Inr False \<Rightarrow> (case py_getitem v 1 of
               Inl e \<Rightarrow> raise e self
             | Inr b \<Rightarrow> (case py_lt b 0 of
                 Inl e \<Rightarrow> raise e self
               | Inr True \<Rightarrow> raise (ValueError ''Window size must be a positive value.'') self
               | Inr False \<Rightarrow> store ''_window_size'' v self)))))"

text \<open>
  \<^verbatim>\<open>value = int(value)\<close>; \<^verbatim>\<open>if value < 1: raise ValueError(...)\<close>;
  \<^verbatim>\<open>self._image_scale = int(value)\<close>.
\<close>

definition image_scale_set :: setter where
  "image_scale_set c v self =
    (case py_int c v of
       Inl e \<Rightarrow> raise e self
     | Inr i \<Rightarrow>
        if i < 1 then raise (ValueError ''Scale factor must be a positive integer.'') self
        else store ''_image_scale'' (VInt i) self)"

text \<open>
  \<^verbatim>\<open>try: get_cmap_safe(cmap); self._cmap = cmap\<close>
  \<^verbatim>\<open>except ImportError: warnings.warn(...); self._cmap = None\<close>.
  Any other exception of the validator propagates.
\<close>

definition cmap_set :: setter where
  "cmap_set c v self =
    (case get_cmap_safe c v of
       None \<Rightarrow> store ''_cmap'' v self
     | Some (ImportError m) \<Rightarrow>
         warn (UserWarning (''Unable to set a default theme colormap without matplotlib. ''
                 @ ''The builtin VTK '' @ dq @ ''jet'' @ dq @ '' colormap will be used.''))
              (store ''_cmap'' VNone self)
     | Some e \<Rightarrow> raise e self)"

text \<open>\<^verbatim>\<open>self._color_cycler = get_cycler(color_cycler)\<close>\<close>

definition color_cycler_set :: setter where
  "color_cycler_set c v self =
    (case get_cycler c v of Inl e \<Rightarrow> raise e self | Inr cy \<Rightarrow> store ''_color_cycler'' cy self)"

text \<open>\<^verbatim>\<open>self._jupyter_backend = _validate_jupyter_backend(backend)\<close>\<close>

definition jupyter_backend_set :: setter where
  "jupyter_backend_set c v self =
    (case validate_jupyter_backend c v of
       Inl e \<Rightarrow> raise e self
     | Inr b \<Rightarrow> store ''_jupyter_backend'' b self)"

definition colorbar_orientation_set :: setter where
  "colorbar_orientation_set c v self =
    (if \<not> in_strings c v [''vertical'', ''horizontal'']
     then raise (ValueError (''Colorbar orientation must be either '' @ dq @ ''vertical'' @ dq
                   @ '' or '' @ dq @ ''horizontal'' @ dq)) self
     else store ''_colorbar_orientation'' v self)"

text \<open>
  The deprecated boolean form is rewritten first (with a warning); then a string must be
  one of the three tokens, and anything else but \<^verbatim>\<open>None\<close> is a type error.
\<close>

definition anti_aliasing_set :: setter where
  "anti_aliasing_set c v self =
    (let (v', ws) =
       (case v of
          VBool b \<Rightarrow>
            (if b then VStr ''fxaa'' else VNone,
             [PyVistaDeprecationWarning
               (bq @ ''anti_aliasing'' @ bq @ '' is now a string or None and must be either ''
                @ dq @ ''ssaa'' @ dq @ '', '' @ dq @ ''msaa'' @ dq @ '', '' @ dq @ ''fxaa'' @ dq @ '', or None'')])
        | _ \<Rightarrow> (v, []))
     in case (case v' of
          VStr s \<Rightarrow>
            if \<not> in_strings c v' [''ssaa'', ''msaa'', ''fxaa'']
            then raise (ValueError (''anti_aliasing must be either '' @ dq @ ''ssaa'' @ dq @ '', ''
                   @ dq @ ''msaa'' @ dq @ '', or '' @ dq @ ''fxaa'' @ dq)) self
            else store ''_anti_aliasing'' v' self
        | VNone \<Rightarrow> store ''_anti_aliasing'' v' self
        | _ \<Rightarrow> raise (TypeError (''anti_aliasing must be either '' @ dq @ ''ssaa'' @ dq @ '', ''
                   @ dq @ ''msaa'' @ dq @ '', '' @ dq @ ''fxaa'' @ dq @ '', or None'')) self)
        of (e, self', ws') \<Rightarrow> (e, self', ws @ ws'))"

text \<open>The deprecated alias \<^verbatim>\<open>antialiasing\<close> warns and forwards to \<^verbatim>\<open>anti_aliasing\<close>.\<close>

definition antialiasing_get :: getter where
  "antialiasing_get c self =
    (slot_get ''_anti_aliasing'' self,
     [PyVistaDeprecationWarning (''antialising is deprecated.  Please use '' @ bq @ ''anti_aliasing'' @ bq @ '' instead.'')])"

definition antialiasing_set :: setter where
  "antialiasing_set c v self =
    warn (PyVistaDeprecationWarning (''antialising is deprecated.  Please use '' @ bq @ ''anti_aliasing'' @ bq @ '' instead.''))
      (anti_aliasing_set c v self)"

definition volume_mapper_set :: setter where
  "volume_mapper_set c v self =
    (if \<not> in_strings c v [''fixed_point'', ''gpu'', ''open_gl'', ''smart'']
     then raise (ValueError (''Mapper ('' @ py_str c v @ '') unknown. Available volume mappers include:''
                   @ [CHR 0x0A] @ '' fixed_point, gpu, open_gl, smart'')) self
     else store ''_volume_mapper'' v self)"

definition DefaultTheme_props :: "(string \<times> getter \<times> setter) list" where
  "DefaultTheme_props =
    [(''hidden_line_removal'', rd ''_hidden_line_removal'', set_raw ''_hidden_line_removal''),
     (''interpolate_before_map'', rd ''_interpolate_before_map'', set_raw ''_interpolate_before_map''),
     (''opacity'', rd ''_opacity'', opacity_set),
     (''above_range_color'', rd ''_above_range_color'', set_color ''_above_range_color''),
     (''below_range_color'', rd ''_below_range_color'', set_color ''_below_range_color''),
     (''return_cpos'', rd ''_return_cpos'', set_raw ''_return_cpos''),
     (''background'', rd ''_background'', set_color ''_background''),
     (''jupyter_backend'', rd ''_jupyter_backend'', jupyter_backend_set),
     (''trame'', rd ''_trame'', set_config TrameConfig (''Configuration type must be '' @ bq @ ''_TrameConfig'' @ bq @ ''.'') ''_trame''),
     (''auto_close'', rd ''_auto_close'', set_raw ''_auto_close''),
     (''full_screen'', rd ''_full_screen'', set_raw ''_full_screen''),
     (''enable_camera_orientation_widget'', rd ''_enable_camera_orientation_widget'',
        set_raw ''_enable_camera_orientation_widget''),
     (''camera'', rd ''_camera'', camera_set),
     (''notebook'', rd ''_notebook'', set_raw ''_notebook''),
     (''window_size'', rd ''_window_size'', window_size_set),
     (''image_scale'', rd ''_image_scale'', image_scale_set),
     (''font'', rd ''_font'', set_config Font (''Configuration type must be '' @ bq @ ''_Font'' @ bq @ ''.'') ''_font''),
     (''cmap'', rd ''_cmap'', cmap_set),
     (''color'', rd ''_color'', set_color ''_color''),
     (''color_cycler'', rd ''_color_cycler'', color_cycler_set),
     (''nan_color'', rd ''_nan_color'', set_color ''_nan_color''),
     (''edge_color'', rd ''_edge_color'', set_color ''_edge_color''),
     (''line_width'', rd ''_line_width'', set_float ''_line_width''),
     (''point_size'', rd ''_point_size'', set_float ''_point_size''),
     (''outline_color'', rd ''_outline_color'', set_color ''_outline_color''),
     (''floor_color'', rd ''_floor_color'', set_color ''_floor_color''),
     (''colorbar_orientation'', rd ''_colorbar_orientation'', colorbar_orientation_set),
     (''colorbar_horizontal'', rd ''_colorbar_horizontal'',
        set_config ColorbarConfig (''Configuration type must be '' @ bq @ ''_ColorbarConfig'' @ bq @ ''.'') ''_colorbar_horizontal''),
     (''colorbar_vertical'', rd ''_colorbar_vertical'',
        set_config ColorbarConfig (''Configuration type must be '' @ bq @ ''_ColorbarConfig'' @ bq @ ''.'') ''_colorbar_vertical''),
     (''show_scalar_bar'', rd ''_show_scalar_bar'', set_bool ''_show_scalar_bar''),
     (''show_edges'', rd ''_show_edges'', set_bool ''_show_edges''),
     (''show_vertices'', rd ''_show_vertices'', set_bool ''_show_vertices''),
     (''lighting'', rd ''_lighting'', set_raw ''_lighting''),
     (''interactive'', rd ''_interactive'', set_bool ''_interactive''),
     (''render_points_as_spheres'', rd ''_render_points_as_spheres'', set_bool ''_render_points_as_spheres''),
     (''render_lines_as_tubes'', rd ''_render_lines_as_tubes'', set_bool ''_render_lines_as_tubes''),
     (''transparent_background'', rd ''_transparent_background'', set_raw ''_transparent_background''),
     (''title'', rd ''_title'', set_raw ''_title''),
     (''anti_aliasing'', rd ''_anti_aliasing'', anti_aliasing_set),
     (''antialiasing'', antialiasing_get, antialiasing_set),
     (''multi_samples'', rd ''_multi_samples'', set_int ''_multi_samples''),
     (''multi_rendering_splitting_position'', rd ''_multi_rendering_splitting_position'',
        set_raw ''_multi_rendering_splitting_position''),
     (''volume_mapper'', rd ''_volume_mapper'', volume_mapper_set),
     (''smooth_shading'', rd ''_smooth_shading'', set_bool ''_smooth_shading''),
     (''depth_peeling'', rd ''_depth_peeling'',
        set_config DepthPeelingConfig (''Configuration type must be '' @ bq @ ''_DepthPeelingConfig'' @ bq @ ''.'') ''_depth_peeling''),
     (''silhouette'', rd ''_silhouette'',
        set_config SilhouetteConfig (''Configuration type must be '' @ bq @ ''_SilhouetteConfig'' @ bq) ''_silhouette''),
     (''slider_styles'', rd ''_slider_styles'',
        set_config SliderConfig (''Configuration type must be '' @ bq @ ''_SliderConfig'' @ bq @ ''.'') ''_slider_styles''),
     (''axes'', rd ''_axes'', set_config AxesConfig (''Configuration type must be '' @ bq @ ''_AxesConfig'' @ bq @ ''.'') ''_axes''),
     (''before_close_callback'', rd ''_before_close_callback'', set_raw ''_before_close_callback''),
     (''name'', rd ''_name'', set_raw ''_name''),
     (''split_sharp_edges'', rd ''_split_sharp_edges'', set_raw ''_split_sharp_edges''),
     (''sharp_edges_feature_angle'', rd ''_sharp_edges_feature_angle'', set_float ''_sharp_edges_feature_angle''),
     (''lighting_params'', rd ''_lighting_params'',
        set_config LightingConfig (''Configuration type must be '' @ bq @ ''_LightingConfig'' @ bq @ ''.'') ''_lighting_params'')]"

section \<open>Classes: slots, properties, attribute access\<close>

text \<open>The \<^verbatim>\<open>__slots__\<close> lists, in declared order. The preset subclasses declare none and
  inherit the list of \<^verbatim>\<open>DefaultTheme\<close>.\<close>

definition DefaultTheme_slots :: "string list" where
  "DefaultTheme_slots =
    [''_name'', ''_background'', ''_jupyter_backend'', ''_trame'', ''_full_screen'',
     ''_window_size'', ''_image_scale'', ''_camera'', ''_notebook'', ''_font'', ''_auto_close'',
     ''_cmap'', ''_color'', ''_color_cycler'', ''_above_range_color'', ''_below_range_color'',
     ''_nan_color'', ''_edge_color'', ''_line_width'', ''_point_size'', ''_outline_color'',
     ''_floor_color'', ''_colorbar_orientation'', ''_colorbar_horizontal'', ''_colorbar_vertical'',
     ''_show_scalar_bar'', ''_show_edges'', ''_show_vertices'', ''_lighting'', ''_interactive'',
     ''_render_points_as_spheres'', ''_render_lines_as_tubes'', ''_transparent_background'',
     ''_title'', ''_axes'', ''_multi_samples'', ''_multi_rendering_splitting_position'',
     ''_volume_mapper'', ''_smooth_shading'', ''_depth_peeling'', ''_silhouette'',
     ''_slider_styles'', ''_return_cpos'', ''_hidden_line_removal'', ''_anti_aliasing'',
     ''_enable_camera_orientation_widget'', ''_split_sharp_edges'', ''_sharp_edges_feature_angle'',
     ''_before_close_callback'', ''_lighting_params'', ''_interpolate_before_map'', ''_opacity'']"

fun is_theme :: "cls \<Rightarrow> bool" where
  "is_theme DefaultTheme = True"
| "is_theme DarkTheme = True"
| "is_theme ParaViewTheme = True"
| "is_theme DocumentTheme = True"
| "is_theme DocumentProTheme = True"
| "is_theme TestingTheme = True"
| "is_theme _ = False"

fun slots_of :: "cls \<Rightarrow> string list" where
  "slots_of LightingConfig =
     [''_interpolation'', ''_metallic'', ''_roughness'', ''_ambient'', ''_diffuse'', ''_specular'',
      ''_specular_power'', ''_emissive'']"
| "slots_of DepthPeelingConfig = [''_number_of_peels'', ''_occlusion_ratio'', ''_enabled'']"
| "slots_of SilhouetteConfig =
     [''_color'', ''_line_width'', ''_opacity'', ''_feature_angle'', ''_decimate'', ''_enabled'']"
| "slots_of ColorbarConfig = [''_width'', ''_height'', ''_position_x'', ''_position_y'']"
| "slots_of AxesConfig = [''_x_color'', ''_y_color'', ''_z_color'', ''_box'', ''_show'']"
| "slots_of Font = [''_family'', ''_size'', ''_title_size'', ''_label_size'', ''_color'', ''_fmt'']"
| "slots_of SliderStyleConfig =
     [''_name'', ''_slider_length'', ''_slider_width'', ''_slider_color'', ''_tube_width'',
      ''_tube_color'', ''_cap_opacity'', ''_cap_length'', ''_cap_width'']"
| "slots_of SliderConfig = [''_classic'', ''_modern'']"
| "slots_of TrameConfig =
     [''_interactive_ratio'', ''_still_ratio'', ''_jupyter_server_name'', ''_jupyter_server_port'',
      ''_server_proxy_enabled'', ''_server_proxy_prefix'', ''_default_mode'', ''_enable_vtk_warnings'']"
| "slots_of K = DefaultTheme_slots"

fun props_of :: "cls \<Rightarrow> (string \<times> getter \<times> setter) list" where
  "props_of LightingConfig = LightingConfig_props"
| "props_of DepthPeelingConfig = DepthPeelingConfig_props"
| "props_of SilhouetteConfig = SilhouetteConfig_props"
| "props_of ColorbarConfig = ColorbarConfig_props"
| "props_of AxesConfig = AxesConfig_props"
| "props_of Font = Font_props"
| "props_of SliderStyleConfig = SliderStyleConfig_props"
| "props_of SliderConfig = SliderConfig_props"
| "props_of TrameConfig = TrameConfig_props"
| "props_of K = DefaultTheme_props"

text \<open>
  \<^verbatim>\<open>getattr(obj, key)\<close> and \<^verbatim>\<open>setattr(obj, key, value)\<close>: a property of the class runs
  its getter or setter; the name of a slot reads or writes the slot itself, with no
  validation; any other name is an attribute error.
\<close>

definition getattr :: "collab \<Rightarrow> cls \<Rightarrow> slots \<Rightarrow> string \<Rightarrow> (error + pyval) \<times> warning list" where
  "getattr c K self key =
    (case map_of (props_of K) key of
       Some (g, s) \<Rightarrow> g c self
     | None \<Rightarrow>
        if List.member (slots_of K) key then (slot_get key self, [])
        else (Inl (AttributeError key), []))"

definition setattr :: "collab \<Rightarrow> cls \<Rightarrow> string \<Rightarrow> pyval \<Rightarrow> slots \<Rightarrow> eff" where
  "setattr c K key v self =
    (case map_of (props_of K) key of
       Some (g, s) \<Rightarrow> s c v self
     | None \<Rightarrow>
        if List.member (slots_of K) key then store key v self
        else raise (AttributeError key) self)"


section \<open>Constructors\<close>

text \<open>
  An \<^verbatim>\<open>__init__\<close> is a sequence of statements on \<^verbatim>\<open>self\<close>; the first exception
  ends it. \<open>new\<close> is the expression \<^verbatim>\<open>K()\<close>: the object when \<^verbatim>\<open>__init__\<close> returns,
  its exception otherwise. \<open>on_attr\<close> is a statement on a nested object, such as
  \<^verbatim>\<open>self.font.color = 'white'\<close>: the nested object is mutated in place.
\<close>

fun run :: "(slots \<Rightarrow> eff) list \<Rightarrow> slots \<Rightarrow> eff" where
  "run [] self = (None, self, [])"
| "run (st # sts) self =
    (case st self of
       (Some e, self', ws) \<Rightarrow> (Some e, self', ws)
     | (None, self', ws) \<Rightarrow> (case run sts self' of (e, self'', ws') \<Rightarrow> (e, self'', ws @ ws')))"

definition new :: "cls \<Rightarrow> (slots \<Rightarrow> eff) \<Rightarrow> (error + pyval) \<times> warning list" where
  "new K init =
    (case init [] of
       (Some e, self, ws) \<Rightarrow> (Inl e, ws)
     | (None, self, ws) \<Rightarrow> (Inr (VObj K self), ws))"

definition store_new :: "string \<Rightarrow> (error + pyval) \<times> warning list \<Rightarrow> slots \<Rightarrow> eff" where
  "store_new k r self =
    (case r of
       (Inl e, ws) \<Rightarrow> (Some e, self, ws)
     | (Inr v, ws) \<Rightarrow> (None, AList.update k v self, ws))"

definition on_attr :: "string \<Rightarrow> (cls \<Rightarrow> slots \<Rightarrow> eff) \<Rightarrow> slots \<Rightarrow> eff" where
  "on_attr k f self =
    (case map_of self k of
       Some (VObj K sub) \<Rightarrow> (case f K sub of (e, sub', ws) \<Rightarrow> (e, AList.update k (VObj K sub') self, ws))
     | _ \<Rightarrow> raise (AttributeError k) self)"

definition getenv :: "collab \<Rightarrow> string \<Rightarrow> string \<Rightarrow> string" where
  "getenv c k d = (case environ c k of None \<Rightarrow> d | Some s \<Rightarrow> s)"

definition LightingConfig_init :: "collab \<Rightarrow> slots \<Rightarrow> eff" where
  "LightingConfig_init c = run
    [store ''_interpolation'' (VInt (FLAT c)),
     store ''_metallic'' (VFloat 0.0),
     store ''_roughness'' (VFloat 0.5),
     store ''_ambient'' (VFloat 0.0),
     store ''_diffuse'' (VFloat 1.0),
     store ''_specular'' (VFloat 0.0),
     store ''_specular_power'' (VFloat 100.0),
     store ''_emissive'' (VBool False)]"

definition DepthPeelingConfig_init :: "collab \<Rightarrow> slots \<Rightarrow> eff" where
  "DepthPeelingConfig_init c = run
    [store ''_number_of_peels'' (VInt 4),
     store ''_occlusion_ratio'' (VFloat 0.0),
     store ''_enabled'' (VBool False)]"

definition SilhouetteConfig_init :: "collab \<Rightarrow> slots \<Rightarrow> eff" where
  "SilhouetteConfig_init c = run
    [store_new ''_color'' (map_sum id VColor (Color c (VStr ''black'')), []),
     store ''_line_width'' (VInt 2),
     store ''_opacity'' (VFloat 1.0),
     store ''_feature_angle'' VNone,
     store ''_decimate'' VNone,
     store ''_enabled'' (VBool False)]"

definition ColorbarConfig_init :: "collab \<Rightarrow> slots \<Rightarrow> eff" where
  "ColorbarConfig_init c = run
    [store ''_width'' VNone,
     store ''_height'' VNone,
     store ''_position_x'' VNone,
     store ''_position_y'' VNone]"

definition AxesConfig_init :: "collab \<Rightarrow> slots \<Rightarrow> eff" where
  "AxesConfig_init c = run
    [store_new ''_x_color'' (map_sum id VColor (Color c (VStr ''tomato'')), []),
     store_new ''_y_color'' (map_sum id VColor (Color c (VStr ''seagreen'')), []),
     store_new ''_z_color'' (map_sum id VColor (Color c (VStr ''mediumblue'')), []),
     store ''_box'' (VBool False),
     store ''_show'' (VBool True)]"

definition Font_init :: "collab \<Rightarrow> slots \<Rightarrow> eff" where
  "Font_init c = run
    [store ''_family'' (VStr ''arial''),
     store ''_size'' (VInt 12),
     store ''_title_size'' VNone,
     store ''_label_size'' VNone,
     store_new ''_color'' (map_sum id VColor (Color c (VStr ''white'')), []),
     store ''_fmt'' VNone]"

definition SliderStyleConfig_init :: "collab \<Rightarrow> slots \<Rightarrow> eff" where
  "SliderStyleConfig_init c = run
    [store ''_name'' VNone,
     store ''_slider_length'' VNone,
     store ''_slider_width'' VNone,
     store ''_slider_color'' VNone,
     store ''_tube_width'' VNone,
     store ''_tube_color'' VNone,
     store ''_cap_opacity'' VNone,
     store ''_cap_length'' VNone,
     store ''_cap_width'' VNone]"

definition SliderConfig_init :: "collab \<Rightarrow> slots \<Rightarrow> eff" where
  "SliderConfig_init c = run
    [store_new ''_classic'' (new SliderStyleConfig (SliderStyleConfig_init c)),
     on_attr ''_classic'' (\<lambda>K. setattr c K ''name'' (VStr ''classic'')),
     on_attr ''_classic'' (\<lambda>K. setattr c K ''slider_length'' (VFloat 0.02)),
     on_attr ''_classic'' (\<lambda>K. setattr c K ''slider_width'' (VFloat 0.04)),
     on_attr ''_classic'' (\<lambda>K. setattr c K ''slider_color'' (VStr ''gray'')),
     on_attr ''_classic'' (\<lambda>K. setattr c K ''tube_width'' (VFloat 0.005)),
     on_attr ''_classic'' (\<lambda>K. setattr c K ''tube_color'' (VStr ''white'')),
     on_attr ''_classic'' (\<lambda>K. setattr c K ''cap_opacity'' (VInt 1)),
     on_attr ''_classic'' (\<lambda>K. setattr c K ''cap_length'' (VFloat 0.01)),
     on_attr ''_classic'' (\<lambda>K. setattr c K ''cap_width'' (VFloat 0.02)),
     store_new ''_modern'' (new SliderStyleConfig (SliderStyleConfig_init c)),
     on_attr ''_modern'' (\<lambda>K. setattr c K ''name'' (VStr ''modern'')),
     on_attr ''_modern'' (\<lambda>K. setattr c K ''slider_length'' (VFloat 0.02)),
     on_attr ''_modern'' (\<lambda>K. setattr c K ''slider_width'' (VFloat 0.04)),
     on_attr ''_modern'' (\<lambda>K. setattr c K ''slider_color'' (VTuple [VInt 110, VInt 113, VInt 117])),
     on_attr ''_modern'' (\<lambda>K. setattr c K ''tube_width'' (VFloat 0.04)),
     on_attr ''_modern'' (\<lambda>K. setattr c K ''tube_color'' (VTuple [VInt 178, VInt 179, VInt 181])),
     on_attr ''_modern'' (\<lambda>K. setattr c K ''cap_opacity'' (VInt 0)),
     on_attr ''_modern'' (\<lambda>K. setattr c K ''cap_length'' (VFloat 0.01)),
     on_attr ''_modern'' (\<lambda>K. setattr c K ''cap_width'' (VFloat 0.02))]"

definition TrameConfig_init :: "collab \<Rightarrow> slots \<Rightarrow> eff" where
  "TrameConfig_init c = run
    [store ''_interactive_ratio'' (VInt 1),
     store ''_still_ratio'' (VInt 1),
     store ''_jupyter_server_name'' (VStr ''pyvista-jupyter''),
     store ''_jupyter_server_port'' (VInt 0),
     store ''_server_proxy_enabled'' (VBool (environ c ''PYVISTA_TRAME_SERVER_PROXY_PREFIX'' \<noteq> None)),
     store ''_server_proxy_prefix'' (VStr (getenv c ''PYVISTA_TRAME_SERVER_PROXY_PREFIX'' ''/proxy/'')),
     store ''_default_mode'' (VStr ''trame''),
     store ''_enable_vtk_warnings'' (VBool (lower c (getenv c ''VTK_ENABLE_SERIALIZER_WARNINGS'' ''false'') = ''true''))]"

text \<open>
  \<^verbatim>\<open>try: self._multi_samples = int(os.environ.get('PYVISTA_MULTI_SAMPLES', 4))\<close>
  \<^verbatim>\<open>except ValueError: self._multi_samples = 4\<close>
\<close>

definition multi_samples_from_env :: "collab \<Rightarrow> slots \<Rightarrow> eff" where
  "multi_samples_from_env c self =
    (case environ c ''PYVISTA_MULTI_SAMPLES'' of
       None \<Rightarrow> store ''_multi_samples'' (VInt 4) self
     | Some s \<Rightarrow>
        (case int_of_str c s of
           Inr i \<Rightarrow> store ''_multi_samples'' (VInt i) self
         | Inl (ValueError m) \<Rightarrow> store ''_multi_samples'' (VInt 4) self
         | Inl e \<Rightarrow> raise e self))"

definition DefaultTheme_init :: "collab \<Rightarrow> slots \<Rightarrow> eff" where
  "DefaultTheme_init c = run
    [store ''_name'' (VStr ''default''),
     store_new ''_background'' (map_sum id VColor (Color c (VList [VFloat 0.3, VFloat 0.3, VFloat 0.3])), []),
     store ''_full_screen'' (VBool False),
     store ''_camera'' (VDict [(VStr ''position'', VList [VInt 1, VInt 1, VInt 1]),
                               (VStr ''viewup'', VList [VInt 0, VInt 0, VInt 1])]),
     store ''_notebook'' VNone,
     store ''_window_size'' (VList [VInt 1024, VInt 768]),
     store ''_image_scale'' (VInt 1),
     store_new ''_font'' (new Font (Font_init c)),
     store ''_cmap'' (VStr ''viridis''),
     store_new ''_color'' (map_sum id VColor (Color c (VStr ''white'')), []),
     store ''_color_cycler'' VNone,
     store_new ''_nan_color'' (map_sum id VColor (Color c (VStr ''darkgray'')), []),
     store_new ''_above_range_color'' (map_sum id VColor (Color c (VStr ''grey'')), []),
     store_new ''_below_range_color'' (map_sum id VColor (Color c (VStr ''grey'')), []),
     store_new ''_edge_color'' (map_sum id VColor (Color c (VStr ''black'')), []),
     store ''_line_width'' (VFloat 1.0),
     store ''_point_size'' (VFloat 5.0),
     store_new ''_outline_color'' (map_sum id VColor (Color c (VStr ''white'')), []),
     store_new ''_floor_color'' (map_sum id VColor (Color c (VStr ''gray'')), []),
     store ''_colorbar_orientation'' (VStr ''horizontal''),
     store_new ''_colorbar_horizontal'' (new ColorbarConfig (ColorbarConfig_init c)),
     on_attr ''_colorbar_horizontal'' (\<lambda>K. setattr c K ''width'' (VFloat 0.6)),
     on_attr ''_colorbar_horizontal'' (\<lambda>K. setattr c K ''height'' (VFloat 0.08)),
     on_attr ''_colorbar_horizontal'' (\<lambda>K. setattr c K ''position_x'' (VFloat 0.35)),
     on_attr ''_colorbar_horizontal'' (\<lambda>K. setattr c K ''position_y'' (VFloat 0.05)),
     store_new ''_colorbar_vertical'' (new ColorbarConfig (ColorbarConfig_init c)),
     on_attr ''_colorbar_vertical'' (\<lambda>K. setattr c K ''width'' (VFloat 0.08)),
     on_attr ''_colorbar_vertical'' (\<lambda>K. setattr c K ''height'' (VFloat 0.45)),
     on_attr ''_colorbar_vertical'' (\<lambda>K. setattr c K ''position_x'' (VFloat 0.9)),
     on_attr ''_colorbar_vertical'' (\<lambda>K. setattr c K ''position_y'' (VFloat 0.02)),
     store ''_show_scalar_bar'' (VBool True),
     store ''_show_edges'' (VBool False),
     store ''_show_vertices'' (VBool False),
     store ''_lighting'' (VBool True),
     store ''_interactive'' (VBool False),
     store ''_render_points_as_spheres'' (VBool False),
     store ''_render_lines_as_tubes'' (VBool False),
     store ''_transparent_background'' (VBool False),
     store ''_title'' (VStr ''PyVista''),
     store_new ''_axes'' (new AxesConfig (AxesConfig_init c)),
     store ''_split_sharp_edges'' (VBool False),
     store ''_sharp_edges_feature_angle'' (VFloat 30.0),
     store ''_before_close_callback'' VNone,
     multi_samples_from_env c,
     store ''_auto_close'' (VBool (lower c (getenv c ''PYVISTA_AUTO_CLOSE'' []) \<noteq> ''false'')),
     store ''_jupyter_backend'' (VStr (getenv c ''PYVISTA_JUPYTER_BACKEND'' ''trame'')),
     store_new ''_trame'' (new TrameConfig (TrameConfig_init c)),
     store ''_multi_rendering_splitting_position'' VNone,
     store ''_volume_mapper'' (VStr (if os_name c = ''nt'' then ''fixed_point'' else ''smart'')),
     store ''_smooth_shading'' (VBool False),
     store_new ''_depth_peeling'' (new DepthPeelingConfig (DepthPeelingConfig_init c)),
     store_new ''_silhouette'' (new SilhouetteConfig (SilhouetteConfig_init c)),
     store_new ''_slider_styles'' (new SliderConfig (SliderConfig_init c)),
     store ''_return_cpos'' (VBool True),
     store ''_hidden_line_removal'' (VBool False),
     store ''_anti_aliasing'' VNone,
     store ''_enable_camera_orientation_widget'' (VBool False),
     store_new ''_lighting_params'' (new LightingConfig (LightingConfig_init c)),
     store ''_interpolate_before_map'' (VBool True),
     store ''_opacity'' (VFloat 1.0)]"

text \<open>The presets: \<^verbatim>\<open>super().__init__()\<close>, then assignments through the properties.\<close>

definition DarkTheme_init :: "collab \<Rightarrow> slots \<Rightarrow> eff" where
  "DarkTheme_init c = run
    [DefaultTheme_init c,
     setattr c DarkTheme ''name'' (VStr ''dark''),
     setattr c DarkTheme ''background'' (VStr ''black''),
     setattr c DarkTheme ''cmap'' (VStr ''viridis''),
     on_attr ''_font'' (\<lambda>K. setattr c K ''color'' (VStr ''white'')),
     setattr c DarkTheme ''show_edges'' (VBool False),
     setattr c DarkTheme ''color'' (VStr ''tan''),
     setattr c DarkTheme ''outline_color'' (VStr ''white''),
     setattr c DarkTheme ''edge_color'' (VStr ''white''),
     on_attr ''_axes'' (\<lambda>K. setattr c K ''x_color'' (VStr ''tomato'')),
     on_attr ''_axes'' (\<lambda>K. setattr c K ''y_color'' (VStr ''seagreen'')),
     on_attr ''_axes'' (\<lambda>K. setattr c K ''z_color'' (VStr ''blue''))]"

definition ParaViewTheme_init :: "collab \<Rightarrow> slots \<Rightarrow> eff" where
  "ParaViewTheme_init c = run
    [DefaultTheme_init c,
     setattr c ParaViewTheme ''name'' (VStr ''paraview''),
     setattr c ParaViewTheme ''background'' (VStr ''paraview''),
     setattr c ParaViewTheme ''cmap'' (VStr ''coolwarm''),
     on_attr ''_font'' (\<lambda>K. setattr c K ''family'' (VStr ''arial'')),
     on_attr ''_font'' (\<lambda>K. setattr c K ''label_size'' (VInt 16)),
     on_attr ''_font'' (\<lambda>K. setattr c K ''color'' (VStr ''white'')),
     setattr c ParaViewTheme ''show_edges'' (VBool False),
     setattr c ParaViewTheme ''color'' (VStr ''white''),
     setattr c ParaViewTheme ''outline_color'' (VStr ''white''),
     setattr c ParaViewTheme ''edge_color'' (VStr ''black''),
     on_attr ''_axes'' (\<lambda>K. setattr c K ''x_color'' (VStr ''tomato'')),
     on_attr ''_axes'' (\<lambda>K. setattr c K ''y_color'' (VStr ''gold'')),
     on_attr ''_axes'' (\<lambda>K. setattr c K ''z_color'' (VStr ''green''))]"

definition DocumentTheme_init :: "collab \<Rightarrow> slots \<Rightarrow> eff" where
  "DocumentTheme_init c = run
    [DefaultTheme_init c,
     setattr c DocumentTheme ''name'' (VStr ''document''),
     setattr c DocumentTheme ''background'' (VStr ''white''),
     setattr c DocumentTheme ''cmap'' (VStr ''viridis''),
     on_attr ''_font'' (\<lambda>K. setattr c K ''size'' (VInt 18)),
     on_attr ''_font'' (\<lambda>K. setattr c K ''title_size'' (VInt 18)),
     on_attr ''_font'' (\<lambda>K. setattr c K ''label_size'' (VInt 18)),
     on_attr ''_font'' (\<lambda>K. setattr c K ''color'' (VStr ''black'')),
     setattr c DocumentTheme ''show_edges'' (VBool False),
     setattr c DocumentTheme ''color'' (VStr ''tan''),
     setattr c DocumentTheme ''outline_color'' (VStr ''black''),
     setattr c DocumentTheme ''edge_color'' (VStr ''black''),
     on_attr ''_axes'' (\<lambda>K. setattr c K ''x_color'' (VStr ''tomato'')),
     on_attr ''_axes'' (\<lambda>K. setattr c K ''y_color'' (VStr ''seagreen'')),
     on_attr ''_axes'' (\<lambda>K. setattr c K ''z_color'' (VStr ''blue''))]"

text \<open>\<^verbatim>\<open>self.color_cycler = get_cycler('default')\<close>: the argument is evaluated first.\<close>

definition set_default_cycler :: "collab \<Rightarrow> slots \<Rightarrow> eff" where
  "set_default_cycler c self =
    (case get_cycler c (VStr ''default'') of
       Inl e \<Rightarrow> raise e self
     | Inr cy \<Rightarrow> setattr c DocumentProTheme ''color_cycler'' cy self)"

definition DocumentProTheme_init :: "collab \<Rightarrow> slots \<Rightarrow> eff" where
  "DocumentProTheme_init c = run
    [DocumentTheme_init c,
     set_default_cycler c,
     setattr c DocumentProTheme ''render_points_as_spheres'' (VBool True),
     setattr c DocumentProTheme ''anti_aliasing'' (VStr ''msaa''),
     setattr c DocumentProTheme ''multi_samples'' (VInt 2),
     on_attr ''_depth_peeling'' (\<lambda>K. setattr c K ''number_of_peels'' (VInt 4)),
     on_attr ''_depth_peeling'' (\<lambda>K. setattr c K ''occlusion_ratio'' (VFloat 0.0)),
     on_attr ''_depth_peeling'' (\<lambda>K. setattr c K ''enabled'' (VBool True))]"

definition TestingTheme_init :: "collab \<Rightarrow> slots \<Rightarrow> eff" where
  "TestingTheme_init c = run
    [DefaultTheme_init c,
     setattr c TestingTheme ''name'' (VStr ''testing''),
     setattr c TestingTheme ''multi_samples'' (VInt 1),
     setattr c TestingTheme ''window_size'' (VList [VInt 400, VInt 400]),
     on_attr ''_axes'' (\<lambda>K. setattr c K ''show'' (VBool False)),
     setattr c TestingTheme ''return_cpos'' (VBool False)]"

fun init :: "collab \<Rightarrow> cls \<Rightarrow> slots \<Rightarrow> eff" where
  "init c LightingConfig = LightingConfig_init c"
| "init c DepthPeelingConfig = DepthPeelingConfig_init c"
| "init c SilhouetteConfig = SilhouetteConfig_init c"
| "init c ColorbarConfig = ColorbarConfig_init c"
| "init c AxesConfig = AxesConfig_init c"
| "init c Font = Font_init c"
| "init c SliderStyleConfig = SliderStyleConfig_init c"
| "init c SliderConfig = SliderConfig_init c"
| "init c TrameConfig = TrameConfig_init c"
| "init c DefaultTheme = DefaultTheme_init c"
| "init c DarkTheme = DarkTheme_init c"
| "init c ParaViewTheme = ParaViewTheme_init c"
| "init c DocumentTheme = DocumentTheme_init c"
| "init c DocumentProTheme = DocumentProTheme_init c"
| "init c TestingTheme = TestingTheme_init c"

text \<open>\<^verbatim>\<open>K()\<close>\<close>

definition construct :: "collab \<Rightarrow> cls \<Rightarrow> (error + pyval) \<times> warning list" where
  "construct c K = new K (init c K)"

section \<open>Equality\<close>

text \<open>
  The class hierarchy of the module: every preset derives from \<^verbatim>\<open>DefaultTheme\<close>,
  \<^verbatim>\<open>DocumentProTheme\<close> through \<^verbatim>\<open>DocumentTheme\<close>; the configuration groups derive
  from \<^verbatim>\<open>_ThemeConfig\<close> only. \<open>issubclass K K'\<close> is \<^verbatim>\<open>issubclass(K, K')\<close>.
\<close>

fun base :: "cls \<Rightarrow> cls option" where
  "base DarkTheme = Some DefaultTheme"
| "base ParaViewTheme = Some DefaultTheme"
| "base DocumentTheme = Some DefaultTheme"
| "base DocumentProTheme = Some DocumentTheme"
| "base TestingTheme = Some DefaultTheme"
| "base _ = None"

definition issubclass :: "cls \<Rightarrow> cls \<Rightarrow> bool" where
  "issubclass K K' =
    (K = K' \<or> (case base K of
        None \<Rightarrow> False
      | Some B \<Rightarrow> B = K' \<or> (case base B of None \<Rightarrow> False | Some B' \<Rightarrow> B' = K')))"

text \<open>
  \<^verbatim>\<open>tuple(x)\<close>: the elements of a list or tuple, the characters of a string, the keys of
  a dictionary; \<^verbatim>\<open>_SliderConfig.__iter__\<close> yields the names of its two styles. No other
  value of the model is iterable.
\<close>

definition py_tuple :: "pyval \<Rightarrow> error + pyval list" where
  "py_tuple v =
    (case v of
       VList xs \<Rightarrow> Inr xs
     | VTuple xs \<Rightarrow> Inr xs
     | VStr s \<Rightarrow> Inr (map (\<lambda>ch. VStr [ch]) s)
     | VDict d \<Rightarrow> Inr (map fst d)
     | VObj K self \<Rightarrow>
         if K = SliderConfig then
           (case map_of self ''_classic'' of
              Some (VObj K1 s1) \<Rightarrow>
                (case map_of s1 ''_name'' of
                   None \<Rightarrow> Inl (AttributeError ''_name'')
                 | Some n1 \<Rightarrow>
                    (case map_of self ''_modern'' of
                       Some (VObj K2 s2) \<Rightarrow>
                         (case map_of s2 ''_name'' of
                            None \<Rightarrow> Inl (AttributeError ''_name'')
                          | Some n2 \<Rightarrow> Inr [n1, n2])
                     | _ \<Rightarrow> Inl (AttributeError ''name'')))
            | _ \<Rightarrow> Inl (AttributeError ''name''))
         else Inl (TypeError (cls_name K @ '' object is not iterable''))
     | _ \<Rightarrow> Inl (TypeError (type_name v @ '' object is not iterable'')))"

text \<open>
  The comparisons below take the equality of the elements as a parameter \<open>eq\<close>, which may
  raise. \<open>all_equal\<close> stops at the first exception or the first unequal pair, as the loops
  of the interpreter and of \<^verbatim>\<open>__eq__\<close> do.
\<close>

fun all_equal :: "('a \<Rightarrow> error + bool) \<Rightarrow> 'a list \<Rightarrow> error + bool" where
  "all_equal f [] = Inr True"
| "all_equal f (x # xs) =
    (case f x of
       Inl e \<Rightarrow> Inl e
     | Inr b \<Rightarrow> if b then all_equal f xs else Inr False)"

text \<open>Tuples: the common prefix is compared first, then the lengths. Lists: the lengths
  first. Dictionaries: the sizes, then every key of the left one is looked up in the right
  one (keys are compared structurally, which is exact for strings).\<close>

definition tuple_eq :: "(pyval \<Rightarrow> pyval \<Rightarrow> error + bool) \<Rightarrow> pyval list \<Rightarrow> pyval list \<Rightarrow> error + bool" where
  "tuple_eq eq xs ys =
    (case all_equal (\<lambda>(a, b). eq a b) (zip xs ys) of
       Inl e \<Rightarrow> Inl e
     | Inr b \<Rightarrow> Inr (b \<and> length xs = length ys))"

definition list_eq :: "(pyval \<Rightarrow> pyval \<Rightarrow> error + bool) \<Rightarrow> pyval list \<Rightarrow> pyval list \<Rightarrow> error + bool" where
  "list_eq eq xs ys =
    (if length xs \<noteq> length ys then Inr False else all_equal (\<lambda>(a, b). eq a b) (zip xs ys))"

definition dict_eq :: "(pyval \<Rightarrow> pyval \<Rightarrow> error + bool) \<Rightarrow> (pyval \<times> pyval) list \<Rightarrow> (pyval \<times> pyval) list \<Rightarrow> error + bool" where
  "dict_eq eq d1 d2 =
    (if length d1 \<noteq> length d2 then Inr False
     else all_equal (\<lambda>(k, a). case map_of d2 k of None \<Rightarrow> Inr False | Some b \<Rightarrow> eq a b) d1)"

text \<open>
  One field in \<^verbatim>\<open>_ThemeConfig.__eq__\<close>:
  \<^verbatim>\<open>if isinstance(attr, (tuple, list)): if tuple(attr) != tuple(other_attr): return False\<close>
  \<^verbatim>\<open>else: if not attr == other_attr: return False\<close>
\<close>

definition field_eq :: "(pyval \<Rightarrow> pyval \<Rightarrow> error + bool) \<Rightarrow> pyval \<Rightarrow> pyval \<Rightarrow> error + bool" where
  "field_eq eq attr other_attr =
    (case attr of
       VList xs \<Rightarrow> (case py_tuple other_attr of Inl e \<Rightarrow> Inl e | Inr ys \<Rightarrow> tuple_eq eq xs ys)
     | VTuple xs \<Rightarrow> (case py_tuple other_attr of Inl e \<Rightarrow> Inl e | Inr ys \<Rightarrow> tuple_eq eq xs ys)
     | _ \<Rightarrow> eq attr other_attr)"

text \<open>
  \<^verbatim>\<open>_ThemeConfig.__eq__(self, other)\<close> for two configuration objects:
  \<^verbatim>\<open>if not isinstance(self, type(other)): return False\<close>, then the fields named by
  \<^verbatim>\<open>other.__slots__\<close>, in order.
\<close>

definition config_eq :: "(pyval \<Rightarrow> pyval \<Rightarrow> error + bool) \<Rightarrow> cls \<Rightarrow> slots \<Rightarrow> cls \<Rightarrow> slots \<Rightarrow> error + bool" where
  "config_eq eq K self K' other =
    (if \<not> issubclass K K' then Inr False
     else all_equal
       (\<lambda>attr_name.
          case slot_get attr_name self of
            Inl e \<Rightarrow> Inl e
          | Inr attr \<Rightarrow>
             (case slot_get attr_name other of
                Inl e \<Rightarrow> Inl e
              | Inr other_attr \<Rightarrow> field_eq eq attr other_attr))
       (slots_of K'))"

text \<open>Values that are neither containers, colours nor configuration objects. Numbers are
  equal when they denote the same real; NaN equals nothing, itself included.\<close>

fun atom_eq :: "pyval \<Rightarrow> pyval \<Rightarrow> bool" where
  "atom_eq VNone y = (y = VNone)"
| "atom_eq (VStr s) y = (y = VStr s)"
| "atom_eq (VInterp i) y = (y = VInterp i)"
| "atom_eq (VOpaque n) y = (y = VOpaque n)"
| "atom_eq VNaN y = False"
| "atom_eq VPosInf y = (y = VPosInf)"
| "atom_eq VNegInf y = (y = VNegInf)"
| "atom_eq x y = (case py_num x of None \<Rightarrow> False | Some a \<Rightarrow> py_num y = Some a)"

text \<open>
  The operator \<^verbatim>\<open>x == y\<close>, one level deep. A \<^verbatim>\<open>Color\<close> on either side decides by its
  own \<^verbatim>\<open>__eq__\<close>. For two configuration objects the interpreter calls
  \<^verbatim>\<open>y.__eq__(x)\<close> first when the class of \<open>y\<close> is a proper issubclass of the class of
  \<open>x\<close>, and \<^verbatim>\<open>x.__eq__(y)\<close> otherwise; \<^verbatim>\<open>_ThemeConfig.__eq__\<close> always answers. A
  configuration object never equals a value of another type. Two equal references to one
  object are compared like any two objects.
\<close>

definition eq_step :: "collab \<Rightarrow> (pyval \<Rightarrow> pyval \<Rightarrow> error + bool) \<Rightarrow> pyval \<Rightarrow> pyval \<Rightarrow> error + bool" where
  "eq_step c eq x y =
    (case x of
       VColor t \<Rightarrow> Inr (Color_eq c t y)
     | VObj K self \<Rightarrow>
        (case y of
           VObj K' other \<Rightarrow>
             if K \<noteq> K' \<and> issubclass K' K then config_eq eq K' other K self
             else config_eq eq K self K' other
         | _ \<Rightarrow> Inr False)
     | VList xs \<Rightarrow>
        (case y of VList ys \<Rightarrow> list_eq eq xs ys | VColor t \<Rightarrow> Inr (Color_eq c t x) | _ \<Rightarrow> Inr False)
     | VTuple xs \<Rightarrow>
        (case y of VTuple ys \<Rightarrow> tuple_eq eq xs ys | VColor t \<Rightarrow> Inr (Color_eq c t x) | _ \<Rightarrow> Inr False)
     | VDict d \<Rightarrow>
        (case y of VDict d' \<Rightarrow> dict_eq eq d d' | VColor t \<Rightarrow> Inr (Color_eq c t x) | _ \<Rightarrow> Inr False)
     | _ \<Rightarrow>
        (case y of VColor t \<Rightarrow> Inr (Color_eq c t x) | _ \<Rightarrow> Inr (atom_eq x y)))"

lemma all_equal_cong:
  "(\<And>x. x \<in> set xs \<Longrightarrow> f x = g x) \<Longrightarrow> all_equal f xs = all_equal g xs"
  by (induction xs) (auto split: sum.splits)

lemma size_list_member: "x \<in> set xs \<Longrightarrow> size x < Suc (size_list size xs)"
  for x :: pyval
  by (induction xs) auto

lemma size_dict_member:
  "(k, v) \<in> set d \<Longrightarrow> size k < Suc (size_list (size_prod size size) d) \<and> size v < Suc (size_list (size_prod size size) d)"
  for k v :: pyval
  by (induction d) auto

lemma size_slot_member:
  "map_of self n = Some v \<Longrightarrow> size v < Suc (size_list (size_prod (\<lambda>x. 0) size) self)"
  for v :: pyval
  by (induction self) (auto split: if_splits)

lemma size_py_tuple: "py_tuple v = Inr ys \<Longrightarrow> y \<in> set ys \<Longrightarrow> size y \<le> size v"
proof (cases v)
  case (VObj K self)
  assume a: "py_tuple v = Inr ys" "y \<in> set ys"
  show ?thesis
  proof (cases "K = SliderConfig")
    case True
    with a VObj obtain K1 s1 K2 s2 n1 n2 where
      h: "map_of self ''_classic'' = Some (VObj K1 s1)" "map_of s1 ''_name'' = Some n1"
         "map_of self ''_modern'' = Some (VObj K2 s2)" "map_of s2 ''_name'' = Some n2" "ys = [n1, n2]"
      by (auto simp: py_tuple_def split: option.splits pyval.splits)
    have "size n1 < size v" "size n2 < size v"
      using size_slot_member [OF h(1)] size_slot_member [OF h(2)]
            size_slot_member [OF h(3)] size_slot_member [OF h(4)] VObj by auto
    with a(2) h(5) show ?thesis by auto
  next
    case False
    with a VObj show ?thesis by (simp add: py_tuple_def)
  qed
next
  case (VDict d)
  assume "py_tuple v = Inr ys" "y \<in> set ys"
  with VDict obtain w where "(y, w) \<in> set d" by (auto simp: py_tuple_def)
  from size_dict_member [OF this] VDict show ?thesis by simp
qed (use size_list_member in \<open>force simp: py_tuple_def dest: less_imp_le\<close>)+

lemma tuple_eq_cong:
  "(\<And>a b. a \<in> set xs \<Longrightarrow> b \<in> set ys \<Longrightarrow> eq a b = eq' a b) \<Longrightarrow> tuple_eq eq xs ys = tuple_eq eq' xs ys"
  unfolding tuple_eq_def
  by (rule arg_cong [where f = "case_sum Inl _"], rule all_equal_cong) (auto dest: set_zip_leftD set_zip_rightD)

lemma list_eq_cong:
  "(\<And>a b. a \<in> set xs \<Longrightarrow> b \<in> set ys \<Longrightarrow> eq a b = eq' a b) \<Longrightarrow> list_eq eq xs ys = list_eq eq' xs ys"
  unfolding list_eq_def
  by (auto intro!: all_equal_cong dest: set_zip_leftD set_zip_rightD)

lemma dict_eq_cong:
  "(\<And>k a b. (k, a) \<in> set d \<Longrightarrow> map_of d' k = Some b \<Longrightarrow> eq a b = eq' a b) \<Longrightarrow> dict_eq eq d d' = dict_eq eq' d d'"
  unfolding dict_eq_def
  by (auto intro!: all_equal_cong split: option.splits)

lemma field_eq_cong:
  assumes "\<And>p q. size p \<le> size a \<Longrightarrow> size q \<le> size b \<Longrightarrow> eq p q = eq' p q"
  shows "field_eq eq a b = field_eq eq' a b"
proof -
  have seq: "tuple_eq eq xs ys = tuple_eq eq' xs ys"
    if "a = VList xs \<or> a = VTuple xs" "py_tuple b = Inr ys" for xs ys
  proof (rule tuple_eq_cong)
    fix p q assume "p \<in> set xs" "q \<in> set ys"
    then have "size p \<le> size a" "size q \<le> size b"
      using that size_list_member [of p xs] size_py_tuple [of b ys q] by auto
    then show "eq p q = eq' p q" by (rule assms)
  qed
  show ?thesis
    using seq assms [of a b]
    by (cases a) (auto simp: field_eq_def split: sum.splits)
qed

lemma config_eq_cong:
  assumes "\<And>p q. size p < size (VObj K self) \<Longrightarrow> size q < size (VObj K' other) \<Longrightarrow> eq p q = eq' p q"
  shows "config_eq eq K self K' other = config_eq eq' K self K' other"
proof -
  have "field_eq eq a b = field_eq eq' a b"
    if "slot_get n self = Inr a" "slot_get n other = Inr b" for n a b
  proof (rule field_eq_cong)
    fix p q :: pyval
    assume "size p \<le> size a" "size q \<le> size b"
    moreover have "size a < size (VObj K self)" "size b < size (VObj K' other)"
      using that size_slot_member [of self n a] size_slot_member [of other n b]
      by (auto simp: slot_get_def split: option.splits)
    ultimately show "eq p q = eq' p q" by (intro assms) auto
  qed
  then show ?thesis
    unfolding config_eq_def
    by (auto intro!: all_equal_cong split: sum.splits)
qed

lemma eq_step_cong [fundef_cong]:
  assumes "x = x'" "y = y'"
    and "\<And>p q. size p + size q < size x' + size y' \<Longrightarrow> eq p q = eq' p q"
  shows "eq_step c eq x y = eq_step c eq' x' y'"
proof -
  have r: "eq p q = eq' p q" if "size p < size x'" "size q < size y'" for p q
    using that by (intro assms(3)) simp
  have "eq_step c eq x' y' = eq_step c eq' x' y'"
  proof (cases x')
    case x: (VList xs)
    show ?thesis
    proof (cases y')
      case y: (VList ys)
      have "list_eq eq xs ys = list_eq eq' xs ys"
      proof (rule list_eq_cong)
        fix a b assume "a \<in> set xs" "b \<in> set ys"
        then have "size a < size x'" "size b < size y'"
          using x y size_list_member [of a xs] size_list_member [of b ys] by auto
        then show "eq a b = eq' a b" by (rule r)
      qed
      with x y show ?thesis by (simp add: eq_step_def)
    qed (use x in \<open>simp_all add: eq_step_def\<close>)
  next
    case x: (VTuple xs)
    show ?thesis
    proof (cases y')
      case y: (VTuple ys)
      have "tuple_eq eq xs ys = tuple_eq eq' xs ys"
      proof (rule tuple_eq_cong)
        fix a b assume "a \<in> set xs" "b \<in> set ys"
        then have "size a < size x'" "size b < size y'"
          using x y size_list_member [of a xs] size_list_member [of b ys] by auto
        then show "eq a b = eq' a b" by (rule r)
      qed
      with x y show ?thesis by (simp add: eq_step_def)
    qed (use x in \<open>simp_all add: eq_step_def\<close>)
  next
    case x: (VDict d)
    show ?thesis
    proof (cases y')
      case y: (VDict d')
      have "dict_eq eq d d' = dict_eq eq' d d'"
      proof (rule dict_eq_cong)
        fix k a b assume "(k, a) \<in> set d" "map_of d' k = Some b"
        then have "size a < size x'" "size b < size y'"
          using x y size_dict_member [of k a d] size_dict_member [of k b d'] map_of_SomeD [of d' k b]
          by auto
        then show "eq a b = eq' a b" by (rule r)
      qed
      with x y show ?thesis by (simp add: eq_step_def)
    qed (use x in \<open>simp_all add: eq_step_def\<close>)
  next
    case x: (VObj K self)
    show ?thesis
    proof (cases y')
      case y: (VObj K' other)
      have "config_eq eq K self K' other = config_eq eq' K self K' other"
        using x y by (intro config_eq_cong r) auto
      moreover have "config_eq eq K' other K self = config_eq eq' K' other K self"
        using x y by (intro config_eq_cong assms(3)) auto
      ultimately show ?thesis
        using x y by (auto simp: eq_step_def)
    qed (use x in \<open>simp_all add: eq_step_def\<close>)
  qed (simp_all add: eq_step_def)
  with assms(1,2) show ?thesis by simp
qed

function py_eq :: "collab \<Rightarrow> pyval \<Rightarrow> pyval \<Rightarrow> error + bool" where
  "py_eq c x y = eq_step c (py_eq c) x y"
  by pat_completeness auto
termination
  by (relation "measure (\<lambda>(c, x, y). size x + size y)") auto

declare py_eq.simps [simp del]


section \<open>Conversion to and from dictionaries\<close>

text \<open>
  \<^verbatim>\<open>_ThemeConfig.to_dict\<close>: for each name of \<^verbatim>\<open>__slots__\<close>, the value of the slot goes
  into the dictionary under the name without its first character; a value that has a
  \<^verbatim>\<open>to_dict\<close> method is converted by it. Configuration objects have the method; whether
  a \<^verbatim>\<open>Color\<close> has it is the collaborator's business.
\<close>

definition value_to_dict :: "collab \<Rightarrow> (pyval \<Rightarrow> error + pyval) \<Rightarrow> pyval \<Rightarrow> error + pyval" where
  "value_to_dict c rec v =
    (case v of
       VObj K self \<Rightarrow> rec v
     | VColor t \<Rightarrow> (case Color_to_dict c of None \<Rightarrow> Inr v | Some f \<Rightarrow> Inr (f t))
     | _ \<Rightarrow> Inr v)"

fun to_dict_loop :: "(pyval \<Rightarrow> error + pyval) \<Rightarrow> slots \<Rightarrow> string list \<Rightarrow> (pyval \<times> pyval) list
    \<Rightarrow> error + (pyval \<times> pyval) list" where
  "to_dict_loop conv self [] dict0 = Inr dict0"
| "to_dict_loop conv self (key # keys) dict0 =
    (case slot_get key self of
       Inl e \<Rightarrow> Inl e
     | Inr v \<Rightarrow>
        (case conv v of
           Inl e \<Rightarrow> Inl e
         | Inr x \<Rightarrow> to_dict_loop conv self keys (AList.update (VStr (drop 1 key)) x dict0)))"

definition to_dict_step :: "collab \<Rightarrow> (pyval \<Rightarrow> error + pyval) \<Rightarrow> pyval \<Rightarrow> error + pyval" where
  "to_dict_step c rec v =
    (case v of
       VObj K self \<Rightarrow>
         (case to_dict_loop (value_to_dict c rec) self (slots_of K) [] of
            Inl e \<Rightarrow> Inl e
          | Inr dict0 \<Rightarrow> Inr (VDict dict0))
     | _ \<Rightarrow> Inl (AttributeError ''to_dict''))"

lemma to_dict_loop_cong:
  assumes "\<And>v. v \<in> ran (map_of self) \<Longrightarrow> conv v = conv' v"
  shows "to_dict_loop conv self keys d = to_dict_loop conv' self keys d"
proof (induction keys arbitrary: d)
  case Nil
  show ?case by simp
next
  case (Cons key keys)
  show ?case
  proof (cases "map_of self key")
    case None
    then show ?thesis by (simp add: slot_get_def)
  next
    case (Some v)
    then have "conv v = conv' v" by (intro assms ranI)
    with Some Cons.IH show ?thesis by (simp add: slot_get_def split: sum.splits)
  qed
qed

lemma to_dict_step_cong [fundef_cong]:
  assumes "v = v'" and "\<And>p. size p < size v' \<Longrightarrow> rec p = rec' p"
  shows "to_dict_step c rec v = to_dict_step c rec' v'"
proof -
  have "to_dict_loop (value_to_dict c rec) self keys d = to_dict_loop (value_to_dict c rec') self keys d"
    if "v' = VObj K self" for K self keys d
  proof (rule to_dict_loop_cong)
    fix p assume "p \<in> ran (map_of self)"
    then have "size p < size v'"
      using that size_slot_member [of self _ p] by (auto simp: ran_def)
    then show "value_to_dict c rec p = value_to_dict c rec' p"
      using assms(2) by (auto simp: value_to_dict_def split: pyval.splits)
  qed
  then show ?thesis
    using assms(1) by (cases v') (simp_all add: to_dict_step_def)
qed

function to_dict :: "collab \<Rightarrow> pyval \<Rightarrow> error + pyval" where
  "to_dict c v = to_dict_step c (to_dict c) v"
  by pat_completeness auto
termination
  by (relation "measure (\<lambda>(c, v). size v)") auto

declare to_dict.simps [simp del]

text \<open>
  \<^verbatim>\<open>_ThemeConfig.from_dict\<close> (a class method): \<^verbatim>\<open>inst = cls()\<close>, then for every item of
  the dictionary \<^verbatim>\<open>attr = getattr(inst, key)\<close>; if \<^verbatim>\<open>attr\<close> has a \<^verbatim>\<open>from_dict\<close>, the value
  is first rebuilt by it (for a configuration object, by \<^verbatim>\<open>from_dict\<close> of its class); the
  result is assigned with \<^verbatim>\<open>setattr(inst, key, ...)\<close>, that is, through the property.
\<close>

definition with_warnings :: "warning list \<Rightarrow> eff \<Rightarrow> eff" where
  "with_warnings ws r = (case r of (e, self, ws') \<Rightarrow> (e, self, ws @ ws'))"

definition from_dict_item ::
  "collab \<Rightarrow> (cls \<Rightarrow> pyval \<Rightarrow> (error + pyval) \<times> warning list) \<Rightarrow> cls \<Rightarrow> pyval \<times> pyval \<Rightarrow> slots \<Rightarrow> eff" where
  "from_dict_item c rec K kv inst =
    (case kv of (key, v) \<Rightarrow>
      (case key of
         VStr k \<Rightarrow>
           (case getattr c K inst k of
              (Inl e, ws) \<Rightarrow> (Some e, inst, ws)
            | (Inr attr, ws) \<Rightarrow>
               with_warnings ws
                 (case attr of
                    VObj K' sub \<Rightarrow>
                      (case rec K' v of
                         (Inl e, ws') \<Rightarrow> (Some e, inst, ws')
                       | (Inr x, ws') \<Rightarrow> with_warnings ws' (setattr c K k x inst))
                  | VColor t \<Rightarrow>
                      (case Color_from_dict c of
                         None \<Rightarrow> setattr c K k v inst
                       | Some f \<Rightarrow>
                          (case f v of
                             Inl e \<Rightarrow> raise e inst
                           | Inr t' \<Rightarrow> setattr c K k (VColor t') inst))
                  | _ \<Rightarrow> setattr c K k v inst))
       | _ \<Rightarrow> raise (TypeError ''attribute name must be string'') inst))"

definition from_dict_step ::
  "collab \<Rightarrow> (cls \<Rightarrow> pyval \<Rightarrow> (error + pyval) \<times> warning list) \<Rightarrow> cls \<Rightarrow> pyval \<Rightarrow> (error + pyval) \<times> warning list" where
  "from_dict_step c rec K dict0 =
    (case init c K [] of
       (Some e, inst, ws) \<Rightarrow> (Inl e, ws)
     | (None, inst, ws) \<Rightarrow>
        (case dict0 of
           VDict items \<Rightarrow>
             (case run (map (from_dict_item c rec K) items) inst of
                (Some e, inst', ws') \<Rightarrow> (Inl e, ws @ ws')
              | (None, inst', ws') \<Rightarrow> (Inr (VObj K inst'), ws @ ws'))
         | _ \<Rightarrow> (Inl (AttributeError (type_name dict0 @ '' object has no attribute items'')), ws)))"

lemma from_dict_step_cong [fundef_cong]:
  assumes "d = d'" and "\<And>K' p. size p < size d' \<Longrightarrow> rec K' p = rec' K' p"
  shows "from_dict_step c rec K d = from_dict_step c rec' K d'"
proof -
  have m: "map (from_dict_item c rec K) items = map (from_dict_item c rec' K) items"
    if "d' = VDict items" for items
  proof (rule map_cong [OF refl])
    fix kv assume "kv \<in> set items"
    then have "size (snd kv) < size d'"
      using that size_dict_member [of "fst kv" "snd kv" items] by simp
    then have "rec K' (snd kv) = rec' K' (snd kv)" for K'
      by (rule assms(2))
    then show "from_dict_item c rec K kv = from_dict_item c rec' K kv"
      by (cases kv) (auto simp: from_dict_item_def fun_eq_iff split: pyval.splits prod.splits sum.splits)
  qed
  show ?thesis
  proof (cases d')
    case (VDict items)
    show ?thesis
      unfolding from_dict_step_def assms(1) VDict pyval.case m [OF VDict] by (rule refl)
  qed (auto simp: assms(1) from_dict_step_def split: prod.splits option.splits)
qed

function from_dict :: "collab \<Rightarrow> cls \<Rightarrow> pyval \<Rightarrow> (error + pyval) \<times> warning list" where
  "from_dict c K dict0 = from_dict_step c (from_dict c) K dict0"
  by pat_completeness auto
termination
  by (relation "measure (\<lambda>(c, K, d). size d)") auto

declare from_dict.simps [simp del]


section \<open>Loading a theme and selecting a preset\<close>

text \<open>
  The module-level \<^verbatim>\<open>load_theme(filename)\<close>: the JSON content of the file (a collaborator),
  rebuilt by \<^verbatim>\<open>DefaultTheme.from_dict\<close>.
\<close>

definition load_theme_file :: "collab \<Rightarrow> string \<Rightarrow> (error + pyval) \<times> warning list" where
  "load_theme_file c filename =
    (case read_json c filename of
       Inl e \<Rightarrow> (Inl e, [])
     | Inr theme_dict \<Rightarrow> from_dict c DefaultTheme theme_dict)"

text \<open>
  \<^verbatim>\<open>setattr(self, attr_name, getattr(theme, attr_name))\<close> for one name of
  \<^verbatim>\<open>theme.__slots__\<close>. The names are those of the slots, underscore included, so the
  value is read from the slot and written to the slot.
\<close>

definition copy_attr :: "collab \<Rightarrow> cls \<Rightarrow> cls \<Rightarrow> slots \<Rightarrow> string \<Rightarrow> slots \<Rightarrow> eff" where
  "copy_attr c K K' theme attr_name self =
    (case getattr c K' theme attr_name of
       (Inl e, ws) \<Rightarrow> (Some e, self, ws)
     | (Inr v, ws) \<Rightarrow> with_warnings ws (setattr c K attr_name v self))"

text \<open>
  \<^verbatim>\<open>DefaultTheme.load_theme(self, theme)\<close>, with \<open>K\<close> the class of \<^verbatim>\<open>self\<close>: a string is
  first loaded as a file; anything but an instance of \<^verbatim>\<open>DefaultTheme\<close> is a type error;
  then every slot is copied.
\<close>

definition load_theme :: "collab \<Rightarrow> cls \<Rightarrow> pyval \<Rightarrow> slots \<Rightarrow> eff" where
  "load_theme c K theme self =
    (case (case theme of VStr filename \<Rightarrow> load_theme_file c filename | _ \<Rightarrow> (Inr theme, [])) of
       (Inl e, ws) \<Rightarrow> (Some e, self, ws)
     | (Inr theme', ws) \<Rightarrow>
        with_warnings ws
          (case theme' of
             VObj K' src \<Rightarrow>
               if issubclass K' DefaultTheme
               then run (map (copy_attr c K K' src) (slots_of K')) self
               else raise (TypeError (bq @ bq @ ''theme'' @ bq @ bq @ '' must be a pyvista theme like ''
                             @ bq @ bq @ ''pyvista.themes.DefaultTheme'' @ bq @ bq @ ''.'')) self
           | _ \<Rightarrow> raise (TypeError (bq @ bq @ ''theme'' @ bq @ bq @ '' must be a pyvista theme like ''
                             @ bq @ bq @ ''pyvista.themes.DefaultTheme'' @ bq @ bq @ ''.'')) self))"

text \<open>The enumeration \<^verbatim>\<open>_NATIVE_THEMES\<close>: member names and the classes they hold.\<close>

definition NATIVE_THEMES :: "(string \<times> cls) list" where
  "NATIVE_THEMES =
    [(''paraview'', ParaViewTheme),
     (''document'', DocumentTheme),
     (''document_pro'', DocumentProTheme),
     (''dark'', DarkTheme),
     (''default'', DefaultTheme),
     (''testing'', TestingTheme)]"

text \<open>
  \<^verbatim>\<open>set_plot_theme(theme)\<close> acts on \<^verbatim>\<open>pyvista.global_theme\<close>, an object of class \<open>G\<close>
  with slots \<open>g\<close>.
\<close>

definition set_plot_theme :: "collab \<Rightarrow> pyval \<Rightarrow> cls \<Rightarrow> slots \<Rightarrow> eff" where
  "set_plot_theme c theme G g =
    (case theme of
       VStr s \<Rightarrow>
         (case map_of NATIVE_THEMES (lower c s) of
            None \<Rightarrow> raise (ValueError (''Theme '' @ lower c s @ '' not found in PyVista'' @ [CHR 0x27]
                           @ ''s native themes.'')) g
          | Some new_theme_type \<Rightarrow>
             (case construct c new_theme_type of
                (Inl e, ws) \<Rightarrow> (Some e, g, ws)
              | (Inr t, ws) \<Rightarrow> with_warnings ws (load_theme c G t g)))
     | VObj K self \<Rightarrow>
         if issubclass K DefaultTheme then load_theme c G theme g
         else raise (TypeError (''Expected a '' @ bq @ bq @ ''pyvista.themes.DefaultTheme'' @ bq @ bq
                       @ '' or '' @ bq @ bq @ ''str'' @ bq @ bq @ '', not a '' @ type_name theme)) g
     | _ \<Rightarrow> raise (TypeError (''Expected a '' @ bq @ bq @ ''pyvista.themes.DefaultTheme'' @ bq @ bq
                       @ '' or '' @ bq @ bq @ ''str'' @ bq @ bq @ '', not a '' @ type_name theme)) g)"


section \<open>A sample environment\<close>

text \<open>
  One possible behaviour of the collaborators, small enough to evaluate: a handful of
  colour names (a canonical colour is its name), three colormaps, three font families, no
  environment variables, no theme files. It serves to run the model on concrete inputs;
  the general theorems hold for every \<open>collab\<close>.
\<close>

definition sample_rgb :: "pyval list \<Rightarrow> error + string" where
  "sample_rgb xs =
    (if xs = [VFloat 0.3, VFloat 0.3, VFloat 0.3] then Inr ''#4c4c4c''
     else if xs = [VInt 110, VInt 113, VInt 117] then Inr ''#6e7175''
     else if xs = [VInt 178, VInt 179, VInt 181] then Inr ''#b2b3b5''
     else Inl (ValueError ''Invalid color input''))"

definition sample_Color :: "pyval \<Rightarrow> error + string" where
  "sample_Color v =
    (case v of
       VStr s \<Rightarrow>
         if s = ''grey'' then Inr ''gray''
         else if List.member [''black'', ''white'', ''tomato'', ''seagreen'', ''mediumblue'', ''blue'',
                   ''tan'', ''gray'', ''darkgray'', ''gold'', ''green'', ''paraview'', ''red''] s then Inr s
         else Inl (ValueError ''Invalid color input'')
     | VColor t \<Rightarrow> Inr t
     | VList xs \<Rightarrow> sample_rgb xs
     | VTuple xs \<Rightarrow> sample_rgb xs
     | VDict d \<Rightarrow> (case map_of d (VStr ''token'') of Some (VStr t) \<Rightarrow> Inr t | _ \<Rightarrow> Inl (ValueError ''Invalid color input''))
     | _ \<Rightarrow> Inl (ValueError ''Invalid color input''))"

definition sample_from_any :: "pyval \<Rightarrow> error + int" where
  "sample_from_any v =
    (case v of
       VInt i \<Rightarrow> if 0 \<le> i \<and> i \<le> 2 then Inr i else Inl (ValueError ''invalid interpolation'')
     | VInterp i \<Rightarrow> Inr i
     | VStr s \<Rightarrow>
         if map lower_char s = ''flat'' then Inr 0
         else if map lower_char s = ''phong'' then Inr 2
         else Inl (ValueError ''invalid interpolation'')
     | _ \<Rightarrow> Inl (TypeError ''invalid interpolation''))"

definition sample :: collab where
  "sample = \<lparr>
     Color = sample_Color,
     Color_eq = (\<lambda>t v. sample_Color v = Inr t),
     Color_to_dict = Some (\<lambda>t. VDict [(VStr ''token'', VStr t)]),
     Color_from_dict = Some sample_Color,
     get_cmap_safe = (\<lambda>v. case v of
         VStr s \<Rightarrow> if List.member [''viridis'', ''coolwarm'', ''jet''] s then None
                   else Some (ValueError ''unknown colormap'')
       | _ \<Rightarrow> Some (TypeError ''unknown colormap'')),
     get_cycler = (\<lambda>v. case v of
         VNone \<Rightarrow> Inr VNone
       | VOpaque n \<Rightarrow> Inr (VOpaque n)
       | VStr s \<Rightarrow> if s = ''default'' then Inr (VOpaque 0) else Inl (ValueError ''unknown cycler'')
       | _ \<Rightarrow> Inl (TypeError ''unknown cycler'')),
     parse_font_family = (\<lambda>v. case v of
         VStr s \<Rightarrow> if List.member [''arial'', ''courier'', ''times''] s then None
                   else Some (ValueError ''Font must be arial, courier or times'')
       | _ \<Rightarrow> Some (TypeError ''Font must be a string'')),
     validate_jupyter_backend = (\<lambda>v. case v of
         VStr s \<Rightarrow> if List.member [''trame'', ''static'', ''none''] (map lower_char s) then Inr (VStr (map lower_char s))
                   else Inl (ValueError ''Invalid Jupyter notebook plotting backend'')
       | _ \<Rightarrow> Inl (TypeError ''Invalid Jupyter notebook plotting backend'')),
     from_any = sample_from_any,
     FLAT = 0,
     environ = (\<lambda>k. None),
     os_name = ''posix'',
     int_of_str = (\<lambda>s. Inl (ValueError ''invalid literal for int()'')),
     float_of_str = (\<lambda>s. if s = ''nan'' then Inr VNaN
                         else Inl (ValueError ''could not convert string to float'')),
     float_of_int = (\<lambda>i. Inl (OverflowError ''int too large to convert to float'')),
     str_lower = (\<lambda>s. s),
     format_value = type_name,
     read_json = (\<lambda>f. Inl (OSError ''No such file or directory''))
   \<rparr>"



section \<open>What a statement writes\<close>

text \<open>
  \<open>assigns st k\<close>: the statement \<open>st\<close> either raises and leaves the object as it was, or
  returns and has assigned the slot \<open>k\<close> and nothing else.
\<close>

definition assigns :: "(slots \<Rightarrow> eff) \<Rightarrow> string \<Rightarrow> bool" where
  "assigns st k =
    (\<forall>self. case st self of
        (Some e, self', ws) \<Rightarrow> self' = self
      | (None, self', ws) \<Rightarrow> (\<exists>x. self' = AList.update k x self))"

lemma assignsI:
  assumes "\<And>self e self' ws. st self = (Some e, self', ws) \<Longrightarrow> self' = self"
    and "\<And>self self' ws. st self = (None, self', ws) \<Longrightarrow> \<exists>x. self' = AList.update k x self"
  shows "assigns st k"
  unfolding assigns_def using assms by (auto split: prod.splits option.splits)



lemma assigns_raise [simp]: "assigns (raise e) k"
  by (simp add: assigns_def raise_def)

lemma assigns_store [simp]: "assigns (store k v) k"
  by (auto simp: assigns_def store_def)

lemmas setter_splits = sum.splits option.splits prod.splits if_splits bool.splits

lemma assigns_set_raw [simp]: "assigns (set_raw k c v) k"
  by (auto simp: assigns_def set_raw_def store_def)

lemma assigns_set_float [simp]: "assigns (set_float k c v) k"
  by (auto simp: assigns_def set_float_def raise_def store_def split: setter_splits)

lemma assigns_set_int [simp]: "assigns (set_int k c v) k"
  by (auto simp: assigns_def set_int_def raise_def store_def split: setter_splits)

lemma assigns_set_bool [simp]: "assigns (set_bool k c v) k"
  by (auto simp: assigns_def set_bool_def store_def)

lemma assigns_set_color [simp]: "assigns (set_color k c v) k"
  by (auto simp: assigns_def set_color_def raise_def store_def split: setter_splits)

lemma assigns_set_int_or_none [simp]: "assigns (set_int_or_none k c v) k"
  by (auto simp: assigns_def set_int_or_none_def set_int_def raise_def store_def split: setter_splits)

lemma assigns_set_config [simp]: "assigns (set_config K msg k c v) k"
  by (auto simp: assigns_def set_config_def raise_def store_def split: pyval.splits)

lemma assigns_interpolation_set [simp]: "assigns (interpolation_set c v) ''_interpolation''"
  by (auto simp: assigns_def interpolation_set_def raise_def store_def split: setter_splits)

lemma assigns_opacity_set [simp]: "assigns (opacity_set c v) ''_opacity''"
  by (auto simp: assigns_def opacity_set_def raise_def store_def split: setter_splits)

lemma assigns_decimate_set [simp]: "assigns (decimate_set c v) ''_decimate''"
  by (auto simp: assigns_def decimate_set_def raise_def store_def split: setter_splits)

lemma assigns_family_set [simp]: "assigns (family_set c v) ''_family''"
  by (auto simp: assigns_def family_set_def raise_def store_def split: setter_splits)

lemma assigns_camera_set [simp]: "assigns (camera_set c v) ''_camera''"
  by (auto simp: assigns_def camera_set_def raise_def store_def split: pyval.splits)

lemma assigns_window_size_set [simp]: "assigns (window_size_set c v) ''_window_size''"
  by (auto simp: assigns_def window_size_set_def raise_def store_def split: setter_splits)

lemma assigns_image_scale_set [simp]: "assigns (image_scale_set c v) ''_image_scale''"
  by (auto simp: assigns_def image_scale_set_def raise_def store_def split: setter_splits)

lemma assigns_cmap_set [simp]: "assigns (cmap_set c v) ''_cmap''"
  by (auto simp: assigns_def cmap_set_def raise_def store_def warn_def split: option.splits error.splits)

lemma assigns_color_cycler_set [simp]: "assigns (color_cycler_set c v) ''_color_cycler''"
  by (auto simp: assigns_def color_cycler_set_def raise_def store_def split: setter_splits)

lemma assigns_jupyter_backend_set [simp]: "assigns (jupyter_backend_set c v) ''_jupyter_backend''"
  by (auto simp: assigns_def jupyter_backend_set_def raise_def store_def split: setter_splits)

lemma assigns_colorbar_orientation_set [simp]: "assigns (colorbar_orientation_set c v) ''_colorbar_orientation''"
  by (auto simp: assigns_def colorbar_orientation_set_def raise_def store_def)

lemma assigns_anti_aliasing_set [simp]: "assigns (anti_aliasing_set c v) ''_anti_aliasing''"
  by (auto simp: assigns_def anti_aliasing_set_def raise_def store_def split: pyval.splits if_splits)

lemma assigns_antialiasing_set [simp]: "assigns (antialiasing_set c v) ''_anti_aliasing''"
  using assigns_anti_aliasing_set [of c v]
  by (auto simp: assigns_def antialiasing_set_def warn_def split: prod.splits option.splits)

lemma assigns_volume_mapper_set [simp]: "assigns (volume_mapper_set c v) ''_volume_mapper''"
  by (auto simp: assigns_def volume_mapper_set_def raise_def store_def)








section \<open>Basic facts\<close>

lemma props_of_theme: "is_theme K \<Longrightarrow> props_of K = DefaultTheme_props"
  by (cases K) simp_all

lemma slots_of_theme: "is_theme K \<Longrightarrow> slots_of K = DefaultTheme_slots"
  by (cases K) simp_all

lemma map_of_update_same: "map_of (AList.update k v al) k = Some v"
  by (simp add: update_conv')

lemma theme_opacity_prop: "map_of DefaultTheme_props ''opacity'' = Some (rd ''_opacity'', opacity_set)"
  by (simp add: DefaultTheme_props_def)

lemma silhouette_opacity_prop: "map_of SilhouetteConfig_props ''opacity'' = Some (rd ''_opacity'', opacity_set)"
  by (simp add: SilhouetteConfig_props_def)

lemma silhouette_decimate_prop: "map_of SilhouetteConfig_props ''decimate'' = Some (rd ''_decimate'', decimate_set)"
  by (simp add: SilhouetteConfig_props_def)

lemma py_float_num:
  "py_num v = Some x \<Longrightarrow> 0 \<le> x \<Longrightarrow> x \<le> 1 \<Longrightarrow> py_float c v = Inr (VFloat x)"
  by (cases v) (auto split: if_splits)

lemma check_between_zero_and_one_num:
  "py_num v = Some x \<Longrightarrow>
    check_between_zero_and_one v name =
      (if x < 0 \<or> 1 < x then Inl (ValueError (name @ '' must be between 0 and 1.'')) else Inr ())"
  by (cases v) (auto simp: check_between_zero_and_one_def py_lt_def py_gt_def)

lemma opacity_set_num:
  assumes "py_num v = Some x"
  shows "opacity_set c v self =
     (if x < 0 \<or> 1 < x then (Some (ValueError ''opacity must be between 0 and 1.''), self, [])
      else (None, AList.update ''_opacity'' (VFloat x) self, []))"
  using assms py_float_num [OF assms, of c]
  by (auto simp: opacity_set_def check_between_zero_and_one_num raise_def store_def)

lemma decimate_set_num:
  assumes "py_num v = Some x"
  shows "decimate_set c v self =
     (if x < 0 \<or> 1 < x then (Some (ValueError ''decimate must be between 0 and 1.''), self, [])
      else (None, AList.update ''_decimate'' (VFloat x) self, []))"
proof -
  have "v \<noteq> VNone" using assms by auto
  then show ?thesis
    using assms py_float_num [OF assms, of c]
    by (auto simp: decimate_set_def check_between_zero_and_one_num raise_def store_def)
qed

lemma theme_window_size_prop: "map_of DefaultTheme_props ''window_size'' = Some (rd ''_window_size'', window_size_set)"
  by (simp add: DefaultTheme_props_def)

lemma theme_anti_aliasing_prop:
  "map_of DefaultTheme_props ''anti_aliasing'' = Some (rd ''_anti_aliasing'', anti_aliasing_set)"
  by (simp add: DefaultTheme_props_def)

section \<open>Opacity-like fields\<close>

text \<open>
  The theme's \<^verbatim>\<open>opacity\<close> and the silhouette's \<^verbatim>\<open>opacity\<close> and \<^verbatim>\<open>decimate\<close> on
  numbers of the real line (a bool, an int or a finite float \<open>x\<close>): below 0 or above 1 the
  assignment raises \<^verbatim>\<open>ValueError\<close> naming the field and changes nothing; from 0 to 1, the
  bounds included, it succeeds without a warning and the field reads back as the float of
  the same value.
\<close>

lemma opacity_like_range:
  assumes "(is_theme K \<and> key = ''opacity'') \<or> (K = SilhouetteConfig \<and> (key = ''opacity'' \<or> key = ''decimate''))"
      and "py_num v = Some x"
  shows "(x < 0 \<or> 1 < x \<longrightarrow>
            setattr c K key v self = (Some (ValueError (key @ '' must be between 0 and 1.'')), self, []))
       \<and> (0 \<le> x \<and> x \<le> 1 \<longrightarrow>
            setattr c K key v self = (None, AList.update (''_'' @ key) (VFloat x) self, [])
          \<and> getattr c K (AList.update (''_'' @ key) (VFloat x) self) key = (Inr (VFloat x), []))"
proof -
  consider (theme) "is_theme K" "key = ''opacity''"
    | (sil_op) "K = SilhouetteConfig" "key = ''opacity''"
    | (sil_dec) "K = SilhouetteConfig" "key = ''decimate''"
    using assms(1) by blast
  then show ?thesis
  proof cases
    case theme
    then show ?thesis
      using opacity_set_num [OF assms(2), of c self]
      by (auto simp: setattr_def getattr_def props_of_theme theme_opacity_prop rd_def slot_get_def map_of_update_same)
  next
    case sil_op
    then show ?thesis
      using opacity_set_num [OF assms(2), of c self]
      by (auto simp: setattr_def getattr_def silhouette_opacity_prop rd_def slot_get_def map_of_update_same)
  next
    case sil_dec
    then show ?thesis
      using decimate_set_num [OF assms(2), of c self]
      by (auto simp: setattr_def getattr_def silhouette_decimate_prop rd_def slot_get_def map_of_update_same)
  qed
qed


lemma opacity_like_range_sample:
  "setattr sample DefaultTheme ''opacity'' (VInt 1) [] = (None, [(''_opacity'', VFloat 1)], [])
   \<and> setattr sample SilhouetteConfig ''decimate'' (VFloat 0) [] = (None, [(''_decimate'', VFloat 0)], [])
   \<and> setattr sample SilhouetteConfig ''opacity'' (VFloat 1.5) [(''_opacity'', VFloat 1)]
       = (Some (ValueError ''opacity must be between 0 and 1.''), [(''_opacity'', VFloat 1)], [])
   \<and> setattr sample DarkTheme ''opacity'' (VInt (- 1)) []
       = (Some (ValueError ''opacity must be between 0 and 1.''), [], [])"
  using opacity_like_range [of DefaultTheme "''opacity''" "VInt 1" 1 sample "[]"]
        opacity_like_range [of SilhouetteConfig "''decimate''" "VFloat 0" 0 sample "[]"]
        opacity_like_range [of SilhouetteConfig "''opacity''" "VFloat 1.5" "1.5" sample "[(''_opacity'', VFloat 1)]"]
        opacity_like_range [of DarkTheme "''opacity''" "VInt (- 1)" "- 1" sample "[]"]
  by simp

text \<open>
  Claim C5 says that every value outside the closed interval from 0 to 1 is refused.
  \<^verbatim>\<open>_check_between_zero_and_one\<close> tests \<^verbatim>\<open>value < 0 or value > 1\<close>, and both
  comparisons are false for NaN: assigning \<^verbatim>\<open>float('nan')\<close> to any of the three fields
  raises nothing and stores NaN, a value that is not between zero and one.
\<close>

theorem opacity_accepts_nan:
  "setattr c DefaultTheme ''opacity'' VNaN self = (None, AList.update ''_opacity'' VNaN self, [])
   \<and> setattr c SilhouetteConfig ''opacity'' VNaN self = (None, AList.update ''_opacity'' VNaN self, [])
   \<and> setattr c SilhouetteConfig ''decimate'' VNaN self = (None, AList.update ''_decimate'' VNaN self, [])"
  by (simp add: setattr_def theme_opacity_prop silhouette_opacity_prop silhouette_decimate_prop
        opacity_set_def decimate_set_def check_between_zero_and_one_def py_lt_def py_gt_def store_def)

section \<open>The window size\<close>

text \<open>
  Claim C6 asks that a pair with a non-positive component be refused. The setter tests
  \<^verbatim>\<open>window_size[0] < 0 or window_size[1] < 0\<close> under the comment
  \<^verbatim>\<open># ensure positive size\<close>, so a zero passes: assigning \<^verbatim>\<open>[0, 400]\<close> to the window
  size succeeds and stores the pair.
\<close>

theorem window_size_accepts_zero:
  "setattr c DefaultTheme ''window_size'' (VList [VInt 0, VInt 400]) self
     = (None, AList.update ''_window_size'' (VList [VInt 0, VInt 400]) self, [])"
  by (simp add: setattr_def theme_window_size_prop window_size_set_def nth_or_raise_def py_lt_def store_def)

section \<open>The anti-aliasing mode\<close>

text \<open>
  Claim C7. On every theme, assigning \<^verbatim>\<open>'ssaa'\<close>, \<^verbatim>\<open>'msaa'\<close>, \<^verbatim>\<open>'fxaa'\<close> or
  \<^verbatim>\<open>None\<close> to \<^verbatim>\<open>anti_aliasing\<close> succeeds and reads back unchanged; any other string
  raises the \<^verbatim>\<open>ValueError\<close> that lists the three tokens; a value that is neither a
  string, a bool nor \<^verbatim>\<open>None\<close> raises \<^verbatim>\<open>TypeError\<close>; a bool is accepted with a
  deprecation warning and stored as \<^verbatim>\<open>'fxaa'\<close> when true and \<^verbatim>\<open>None\<close> when false.
  A failed assignment leaves the theme as it was.
\<close>

theorem anti_aliasing_assignment:
  assumes "is_theme K"
  shows "(List.member [''ssaa'', ''msaa'', ''fxaa''] s \<longrightarrow>
            setattr c K ''anti_aliasing'' (VStr s) self
              = (None, AList.update ''_anti_aliasing'' (VStr s) self, [])
          \<and> getattr c K (AList.update ''_anti_aliasing'' (VStr s) self) ''anti_aliasing'' = (Inr (VStr s), []))
       \<and> setattr c K ''anti_aliasing'' VNone self = (None, AList.update ''_anti_aliasing'' VNone self, [])
       \<and> getattr c K (AList.update ''_anti_aliasing'' VNone self) ''anti_aliasing'' = (Inr VNone, [])
       \<and> (\<not> List.member [''ssaa'', ''msaa'', ''fxaa''] s \<longrightarrow>
            setattr c K ''anti_aliasing'' (VStr s) self
              = (Some (ValueError (''anti_aliasing must be either '' @ dq @ ''ssaa'' @ dq @ '', ''
                   @ dq @ ''msaa'' @ dq @ '', or '' @ dq @ ''fxaa'' @ dq)), self, []))
       \<and> ((\<forall>s. v \<noteq> VStr s) \<and> (\<forall>b. v \<noteq> VBool b) \<and> v \<noteq> VNone \<longrightarrow>
            setattr c K ''anti_aliasing'' v self
              = (Some (TypeError (''anti_aliasing must be either '' @ dq @ ''ssaa'' @ dq @ '', ''
                   @ dq @ ''msaa'' @ dq @ '', '' @ dq @ ''fxaa'' @ dq @ '', or None'')), self, []))
       \<and> setattr c K ''anti_aliasing'' (VBool b) self
              = (None, AList.update ''_anti_aliasing'' (if b then VStr ''fxaa'' else VNone) self,
                 [PyVistaDeprecationWarning
                    (bq @ ''anti_aliasing'' @ bq @ '' is now a string or None and must be either ''
                     @ dq @ ''ssaa'' @ dq @ '', '' @ dq @ ''msaa'' @ dq @ '', '' @ dq @ ''fxaa'' @ dq @ '', or None'')])"
proof -
  have p: "map_of (props_of K) ''anti_aliasing'' = Some (rd ''_anti_aliasing'', anti_aliasing_set)"
    using assms by (simp add: props_of_theme theme_anti_aliasing_prop)
  have str_ok: "List.member [''ssaa'', ''msaa'', ''fxaa''] s \<Longrightarrow>
      anti_aliasing_set c (VStr s) self = (None, AList.update ''_anti_aliasing'' (VStr s) self, [])"
    by (auto simp: anti_aliasing_set_def in_strings_def store_def)
  have str_bad: "\<not> List.member [''ssaa'', ''msaa'', ''fxaa''] s \<Longrightarrow>
      anti_aliasing_set c (VStr s) self
        = (Some (ValueError (''anti_aliasing must be either '' @ dq @ ''ssaa'' @ dq @ '', ''
                   @ dq @ ''msaa'' @ dq @ '', or '' @ dq @ ''fxaa'' @ dq)), self, [])"
    by (auto simp: anti_aliasing_set_def in_strings_def raise_def)
  have none: "anti_aliasing_set c VNone self = (None, AList.update ''_anti_aliasing'' VNone self, [])"
    by (simp add: anti_aliasing_set_def store_def)
  have other: "(\<forall>s. v \<noteq> VStr s) \<and> (\<forall>b. v \<noteq> VBool b) \<and> v \<noteq> VNone \<Longrightarrow>
      anti_aliasing_set c v self
        = (Some (TypeError (''anti_aliasing must be either '' @ dq @ ''ssaa'' @ dq @ '', ''
                   @ dq @ ''msaa'' @ dq @ '', '' @ dq @ ''fxaa'' @ dq @ '', or None'')), self, [])"
    by (cases v) (auto simp: anti_aliasing_set_def raise_def)
  have bool: "anti_aliasing_set c (VBool b) self
      = (None, AList.update ''_anti_aliasing'' (if b then VStr ''fxaa'' else VNone) self,
         [PyVistaDeprecationWarning
            (bq @ ''anti_aliasing'' @ bq @ '' is now a string or None and must be either ''
             @ dq @ ''ssaa'' @ dq @ '', '' @ dq @ ''msaa'' @ dq @ '', '' @ dq @ ''fxaa'' @ dq @ '', or None'')])"
    by (simp add: anti_aliasing_set_def in_strings_def store_def)
  have rdback: "\<And>w. getattr c K (AList.update ''_anti_aliasing'' w self) ''anti_aliasing'' = (Inr w, [])"
    by (simp add: getattr_def p rd_def slot_get_def map_of_update_same)
  show ?thesis
    using str_ok str_bad none other bool rdback
    by (simp add: setattr_def p)
qed


theorem anti_aliasing_assignment_witness:
  "setattr sample DefaultTheme ''anti_aliasing'' (VStr ''msaa'') [] = (None, [(''_anti_aliasing'', VStr ''msaa'')], [])
   \<and> setattr sample DefaultTheme ''anti_aliasing'' (VStr ''MSAA'') []
       = (Some (ValueError (''anti_aliasing must be either '' @ dq @ ''ssaa'' @ dq @ '', ''
                   @ dq @ ''msaa'' @ dq @ '', or '' @ dq @ ''fxaa'' @ dq)), [], [])
   \<and> setattr sample DefaultTheme ''anti_aliasing'' (VInt 4) []
       = (Some (TypeError (''anti_aliasing must be either '' @ dq @ ''ssaa'' @ dq @ '', ''
                   @ dq @ ''msaa'' @ dq @ '', '' @ dq @ ''fxaa'' @ dq @ '', or None'')), [], [])
   \<and> fst (snd (setattr sample DefaultTheme ''anti_aliasing'' (VBool True) [])) = [(''_anti_aliasing'', VStr ''fxaa'')]"
  using anti_aliasing_assignment [of DefaultTheme "''msaa''" sample "[]" "VInt 4" True]
        anti_aliasing_assignment [of DefaultTheme "''MSAA''" sample "[]" "VInt 4" True]
  by simp

section \<open>Assignments are atomic\<close>





end
